theory Spec2Isabelle
  imports Main
begin

section \<open>Time values\<close>

text \<open>
  A valid \<open>Dayjs\<close> value, a valid \<open>Date\<close> and an ISO-8601 string all denote an
  instant; the model keeps the instant as its number of milliseconds since the Unix
  epoch. Two instants have the same \<open>toISOString()\<close> exactly when they are the same
  number. The times held by slots, bookings and busy intervals are such instants. A
  \<open>Date\<close> reaches 8640000000000000 ms to either side of the epoch; arithmetic that
  leaves this range gives an Invalid Date, here \<open>None\<close>, and every comparison with an
  Invalid Date is false.
\<close>

type_synonym Dayjs = int

definition msPerMinute :: int where
  "msPerMinute = 60000"

definition msPerDay :: int where
  "msPerDay = 86400000"

definition validDate :: "int \<Rightarrow> bool" where
  "validDate t = (- 8640000000000000 \<le> t \<and> t \<le> 8640000000000000)"

text \<open>\<open>time.add(n, "minutes")\<close>, and \<open>time.add(1, "day")\<close> on a UTC value.\<close>

definition addMinutes :: "Dayjs \<Rightarrow> int \<Rightarrow> Dayjs option" where
  "addMinutes t n = (if validDate (t + n * msPerMinute) then Some (t + n * msPerMinute) else None)"

definition addDay :: "Dayjs \<Rightarrow> Dayjs option" where
  "addDay t = (if validDate (t + msPerDay) then Some (t + msPerDay) else None)"

text \<open>\<open>x.isBefore(y)\<close> and \<open>x.isAfter(y)\<close>; either value may be an Invalid Date.\<close>

definition isBefore :: "Dayjs option \<Rightarrow> Dayjs option \<Rightarrow> bool" where
  "isBefore x y = (case (x, y) of (Some a, Some b) \<Rightarrow> a < b | _ \<Rightarrow> False)"

definition isAfter :: "Dayjs option \<Rightarrow> Dayjs option \<Rightarrow> bool" where
  "isAfter x y = (case (x, y) of (Some a, Some b) \<Rightarrow> a > b | _ \<Rightarrow> False)"

text \<open>
  The inclusivity argument of \<open>isBetween\<close>: \<open>"()"\<close> (the default), \<open>"[)"\<close>,
  \<open>"(]"\<close> and \<open>"[]"\<close>.
\<close>

datatype Inclusivity = Open_Open | Closed_Open | Open_Closed | Closed_Closed

definition leftOpen :: "Inclusivity \<Rightarrow> bool" where
  "leftOpen i = (i = Open_Open \<or> i = Open_Closed)"

definition rightOpen :: "Inclusivity \<Rightarrow> bool" where
  "rightOpen i = (i = Open_Open \<or> i = Closed_Open)"

text \<open>
  \<open>x.isBetween(a, b, null, i)\<close> of the dayjs plugin: the value lies between the two
  bounds taken in either order.
\<close>

definition isBetween :: "Dayjs option \<Rightarrow> Dayjs option \<Rightarrow> Dayjs option \<Rightarrow> Inclusivity \<Rightarrow> bool" where
  "isBetween x a b i =
     (((if leftOpen i then isAfter x a else \<not> isBefore x a) \<and>
       (if rightOpen i then isBefore x b else \<not> isAfter x b)) \<or>
      ((if leftOpen i then isBefore x a else \<not> isAfter x a) \<and>
       (if rightOpen i then isAfter x b else \<not> isBefore x b)))"

section \<open>The availability check\<close>

text \<open>\<open>EventBusyDate\<close>: a busy interval of a host, \<open>{start, end}\<close>.\<close>

record EventBusyDate =
  busy_start :: Dayjs
  busy_end :: Dayjs

text \<open>
  An element of \<open>CurrentSeats\<close>: a booking of a seated event,
  \<open>{uid, startTime, _count: {attendees}}\<close>.
\<close>

record SeatBooking =
  uid :: string
  startTime :: Dayjs
  attendees :: nat

type_synonym CurrentSeats = "SeatBooking list"

text \<open>
  \<open>currentSeats?.some((booking) => booking.startTime.toISOString() === time.toISOString())\<close>;
  an undefined \<open>currentSeats\<close> is \<open>None\<close> and makes the test falsy.
\<close>

definition hasSeatAt :: "CurrentSeats option \<Rightarrow> Dayjs \<Rightarrow> bool" where
  "hasSeatAt currentSeats t =
     (case currentSeats of
        None \<Rightarrow> False
      | Some bookings \<Rightarrow> list_ex (\<lambda>booking. startTime booking = t) bookings)"

text \<open>The callback of \<open>busy.every\<close> in \<open>checkIfIsAvailable\<close>, branch by branch.\<close>

definition busyTimeAllows :: "Dayjs option \<Rightarrow> Dayjs option \<Rightarrow> EventBusyDate \<Rightarrow> bool" where
  "busyTimeAllows slotStartTime slotEndTime busyTime =
     (let startT = Some (busy_start busyTime); endT = Some (busy_end busyTime) in
      if isBefore endT slotStartTime \<or> isAfter startT slotEndTime then True
      else if isBetween slotStartTime startT endT Closed_Open then False
      else if isBetween slotEndTime startT endT Open_Closed then False
      else if isBetween slotStartTime startT endT Closed_Open then False
      else if isBetween slotEndTime startT endT Open_Open then False
      else if isBetween startT slotStartTime slotEndTime Open_Open then False
      else True)"

definition checkIfIsAvailable ::
  "Dayjs \<Rightarrow> EventBusyDate list \<Rightarrow> int \<Rightarrow> CurrentSeats option \<Rightarrow> bool" where
  "checkIfIsAvailable t busy eventLength currentSeats =
     (if hasSeatAt currentSeats t then True
      else
        (let slotEndTime = addMinutes t eventLength; slotStartTime = Some t
         in list_all (busyTimeAllows slotStartTime slotEndTime) busy))"

text \<open>
  The half-open overlap of the slot window \<open>[t, t + d)\<close>, \<open>d\<close> in minutes, with a
  busy interval.
\<close>

definition overlaps :: "Dayjs \<Rightarrow> int \<Rightarrow> EventBusyDate \<Rightarrow> bool" where
  "overlaps t eventLength b =
     (t < busy_end b \<and> t + eventLength * msPerMinute > busy_start b)"

section \<open>Data of a schedule request\<close>

datatype SchedulingType = ROUND_ROBIN | COLLECTIVE

datatype PeriodType = UNLIMITED | ROLLING | RANGE

text \<open>
  A user as \<open>availabilityUserSelect\<close> returns it (\<open>id\<close>, \<open>username\<close>), with the
  \<open>allowDynamicBooking\<close> column that \<open>getDynamicEventType\<close> selects besides;
  a nullable column is an \<open>option\<close>.
\<close>

record User =
  userId :: int
  username :: "string option"
  allowDynamicBooking :: "bool option"

text \<open>
  \<open>{isFixed, user}\<close>: an element of \<open>eventType.hosts\<close>, and, flattened by the
  spread \<open>{isFixed, ...user}\<close>, an element of the \<open>users\<close> list of \<open>getSchedule\<close>.
\<close>

record Host =
  isFixed :: bool
  user :: User

record WorkingHours =
  wh_days :: "nat list"
  wh_startTime :: int
  wh_endTime :: int
  wh_userId :: "int option"

record DateOverride =
  ov_userId :: "int option"
  ov_date :: int
  ov_intervals :: "(Dayjs \<times> Dayjs) list"

text \<open>The columns \<open>getEventType\<close> selects; \<open>length\<close> is \<open>length_min\<close>.\<close>

record EventType =
  minimumBookingNotice :: int
  length_min :: int
  seatsPerTimeSlot :: "int option"
  slotInterval :: "int option"
  beforeEventBuffer :: int
  afterEventBuffer :: int
  schedulingType :: "SchedulingType option"
  periodType :: PeriodType
  periodStartDate :: "Dayjs option"
  periodEndDate :: "Dayjs option"
  periodCountCalendarDays :: "bool option"
  periodDays :: "int option"
  metadata :: string
  hosts :: "Host list option"
  users :: "User list"

text \<open>
  \<open>input.duration\<close> after the schema's transform \<open>val && parseInt(val)\<close>:
  undefined, the empty string, \<open>NaN\<close> or an integer.
\<close>

datatype Duration = DurationUndefined | DurationEmpty | DurationNaN | DurationNumber int

record Input =
  input_startTime :: string
  input_endTime :: string
  eventTypeId :: "int option"
  eventTypeSlug :: string
  timeZone :: "string option"
  usernameList :: "string list option"
  debug :: "bool option"
  duration :: Duration

text \<open>
  What \<open>getSchedule\<close> can throw: the three \<open>TRPCError\<close> codes, the error of
  \<open>EventTypeMetaDataSchema.parse\<close>, and the \<open>RangeError\<close> of the time-zone
  conversion for a zone name it does not know.
\<close>

datatype Failure = NOT_FOUND | BAD_REQUEST string | UNAUTHORIZED string | ZodError | RangeError

text \<open>
  What \<open>dayjs(s).utc().tz(zone)\<close> does: it throws, or it gives a value, valid or not.
\<close>

datatype TzResult = TzThrows | TzValue "Dayjs option"

text \<open>The first argument of \<open>getUserAvailability\<close>.\<close>

record AvailabilityQuery =
  q_userId :: int
  q_username :: string
  q_dateFrom :: Dayjs
  q_dateTo :: Dayjs
  q_eventTypeId :: "int option"
  q_afterEventBuffer :: int
  q_beforeEventBuffer :: int

text \<open>What \<open>getUserAvailability\<close> resolves to.\<close>

record AvailabilityResult =
  r_busy :: "EventBusyDate list"
  r_workingHours :: "WorkingHours list"
  r_dateOverrides :: "DateOverride list"
  r_currentSeats :: "CurrentSeats option"
  r_timeZone :: string

text \<open>An element of \<open>userAvailability\<close>.\<close>

record UserAvailability =
  ua_timeZone :: string
  ua_workingHours :: "WorkingHours list"
  ua_dateOverrides :: "DateOverride list"
  busy :: "EventBusyDate list"
  ua_user :: Host

text \<open>A candidate slot as \<open>getTimeSlots\<close> returns it; \<open>userIds\<close> is optional.\<close>

record Slot =
  time :: Dayjs
  userIds :: "int list option"

text \<open>The argument object of \<open>getTimeSlots\<close>.\<close>

record TimeSlotsArgs =
  inviteeDate :: Dayjs
  eventLength :: int
  arg_workingHours :: "WorkingHours list"
  arg_dateOverrides :: "DateOverride list"
  arg_minimumBookingNotice :: int
  frequency :: int

text \<open>The second argument of \<open>isTimeOutOfBounds\<close>.\<close>

record PeriodConfig =
  p_periodType :: PeriodType
  p_periodStartDate :: "Dayjs option"
  p_periodEndDate :: "Dayjs option"
  p_periodCountCalendarDays :: "bool option"
  p_periodDays :: "int option"

text \<open>
  An element of the aggregated output: the slot's pass-through \<open>userIds\<close>, its
  \<open>time\<close> (an ISO string, here the instant), \<open>users\<close>, and the optional
  \<open>attendees\<close> and \<open>bookingUid\<close>.
\<close>

record SlotDescriptor =
  slot_userIds :: "int list option"
  slot_time :: Dayjs
  slot_users :: "string list"
  slot_attendees :: "nat option"
  slot_bookingUid :: "string option"

text \<open>
  The collaborators of \<open>getSchedule\<close> that are not among the source files, taken
  as parameters: the two Prisma queries, \<open>getDefaultEvent\<close>,
  \<open>EventTypeMetaDataSchema.parse\<close> (\<open>None\<close> when it throws), the dayjs parsers
  (\<open>None\<close> when \<open>isValid()\<close> is false), \<open>getUserAvailability\<close>,
  \<open>getAggregateWorkingHours\<close>, \<open>getTimeSlots\<close> and \<open>isTimeOutOfBounds\<close>.
  Calendar arithmetic on zoned values belongs to dayjs as well: \<open>zonedCheckedTimes\<close>
  gives the values \<open>currentCheckedTime\<close> takes in the day loop when the request is not
  in \<open>Etc/GMT\<close>, and \<open>formatDay\<close> the \<open>YYYY-MM-DD\<close> day of a slot's time, as a
  day number.
  \<open>completionOrder\<close> lists the positions of the hosts in the order in which their
  \<open>getUserAvailability\<close> promises resolve: \<open>Promise.all\<close> starts every lookup before
  any continuation runs, and each continuation runs when its own lookup resolves.
\<close>

record Collaborators =
  findUniqueEventType :: "int option \<Rightarrow> EventType option"
  findManyUsers :: "string list option \<Rightarrow> User list"
  getDefaultEvent :: "string \<Rightarrow> EventType"
  parseMetadata :: "string \<Rightarrow> string option"
  dayjsUtc :: "string \<Rightarrow> Dayjs option"
  dayjsTz :: "string \<Rightarrow> string option \<Rightarrow> TzResult"
  zonedCheckedTimes :: "string option \<Rightarrow> Dayjs \<Rightarrow> Dayjs \<Rightarrow> Dayjs list"
  formatDay :: "Dayjs \<Rightarrow> int"
  getUserAvailability ::
    "AvailabilityQuery \<Rightarrow> Host \<Rightarrow> EventType \<Rightarrow> CurrentSeats option \<Rightarrow> AvailabilityResult"
  completionOrder :: "nat list"
  getAggregateWorkingHours ::
    "UserAvailability list \<Rightarrow> SchedulingType option \<Rightarrow> WorkingHours list"
  getTimeSlots :: "TimeSlotsArgs \<Rightarrow> Slot list"
  isTimeOutOfBounds :: "Dayjs \<Rightarrow> PeriodConfig \<Rightarrow> bool"

section \<open>Resolving the event type\<close>

definition getEventType :: "Collaborators \<Rightarrow> Input \<Rightarrow> Failure + EventType option" where
  "getEventType ctx input =
     (case findUniqueEventType ctx (eventTypeId input) of
        None \<Rightarrow> Inr None
      | Some eventType \<Rightarrow>
          (case parseMetadata ctx (metadata eventType) of
             None \<Rightarrow> Inl ZodError
           | Some m \<Rightarrow> Inr (Some (eventType\<lparr>metadata := m\<rparr>))))"

text \<open>\<open>!user.allowDynamicBooking\<close>: a null column is falsy.\<close>

definition forbidsDynamicBooking :: "User \<Rightarrow> bool" where
  "forbidsDynamicBooking u = (allowDynamicBooking u \<noteq> Some True)"

definition getDynamicEventType :: "Collaborators \<Rightarrow> Input \<Rightarrow> Failure + EventType option" where
  "getDynamicEventType ctx input =
     (let dynamicEventType = getDefaultEvent ctx (eventTypeSlug input);
          found = findManyUsers ctx (usernameList input);
          isDynamicAllowed = \<not> list_ex forbidsDynamicBooking found
      in if \<not> isDynamicAllowed
         then Inl (UNAUTHORIZED ''Some of the users in this group do not allow dynamic booking'')
         else Inr (Some (dynamicEventType\<lparr>users := found\<rparr>)))"

text \<open>\<open>!input.eventTypeId\<close>: an absent id and the id 0 are both falsy.\<close>

definition isDynamicBooking :: "Input \<Rightarrow> bool" where
  "isDynamicBooking input = (case eventTypeId input of None \<Rightarrow> True | Some n \<Rightarrow> n = 0)"

definition getRegularOrDynamicEventType ::
  "Collaborators \<Rightarrow> Input \<Rightarrow> Failure + EventType option" where
  "getRegularOrDynamicEventType ctx input =
     (if isDynamicBooking input then getDynamicEventType ctx input else getEventType ctx input)"

text \<open>
  The start of \<open>getSchedule\<close>, up to the last \<open>throw\<close>: the event type, then the
  requested range.
\<close>

definition parseRange ::
  "Collaborators \<Rightarrow> Input \<Rightarrow> Failure + (Dayjs option \<times> Dayjs option)" where
  "parseRange ctx input =
     (if timeZone input = Some ''Etc/GMT''
      then Inr (dayjsUtc ctx (input_startTime input), dayjsUtc ctx (input_endTime input))
      else
        (case dayjsTz ctx (input_startTime input) (timeZone input) of
           TzThrows \<Rightarrow> Inl RangeError
         | TzValue startT \<Rightarrow>
             (case dayjsTz ctx (input_endTime input) (timeZone input) of
                TzThrows \<Rightarrow> Inl RangeError
              | TzValue endT \<Rightarrow> Inr (startT, endT))))"

definition validateRequest ::
  "Collaborators \<Rightarrow> Input \<Rightarrow> Failure + (EventType \<times> Dayjs \<times> Dayjs)" where
  "validateRequest ctx input =
     (case getRegularOrDynamicEventType ctx input of
        Inl err \<Rightarrow> Inl err
      | Inr None \<Rightarrow> Inl NOT_FOUND
      | Inr (Some eventType) \<Rightarrow>
          (case parseRange ctx input of
             Inl err \<Rightarrow> Inl err
           | Inr (Some startT, Some endT) \<Rightarrow> Inr (eventType, startT, endT)
           | Inr _ \<Rightarrow> Inl (BAD_REQUEST ''Invalid time range given.'')))"

section \<open>Hosts and their availability\<close>

text \<open>
  The \<open>users\<close> list of \<open>getSchedule\<close>: every user of the event type with a
  computed \<open>isFixed\<close>, overwritten by the hosts when the event type has a scheduling
  type and a non-empty hosts list.
\<close>

definition scheduleUsers :: "EventType \<Rightarrow> Host list" where
  "scheduleUsers eventType =
     (let fromUsers =
            map (\<lambda>u. \<lparr>isFixed = (schedulingType eventType = None \<or>
                                    schedulingType eventType = Some COLLECTIVE),
                         user = u\<rparr>)
              (users eventType)
      in case hosts eventType of
           None \<Rightarrow> fromUsers
         | Some hs \<Rightarrow>
             (if schedulingType eventType \<noteq> None \<and> length hs \<noteq> 0
              then map (\<lambda>h. \<lparr>isFixed = isFixed h, user = user h\<rparr>) hs
              else fromUsers))"

text \<open>\<open>currentUser.username || ""\<close>.\<close>

definition usernameOrEmpty :: "User \<Rightarrow> string" where
  "usernameOrEmpty u = (case username u of None \<Rightarrow> [] | Some n \<Rightarrow> n)"

text \<open>
  The lookup of one host. Every lookup is started while \<open>currentSeats\<close> is still
  undefined, so \<open>None\<close> is what it is given.
\<close>

definition lookupAvailability ::
  "Collaborators \<Rightarrow> Input \<Rightarrow> EventType \<Rightarrow> Dayjs \<Rightarrow> Dayjs \<Rightarrow> Host \<Rightarrow> AvailabilityResult" where
  "lookupAvailability ctx input eventType startT endT currentUser =
     getUserAvailability ctx
       \<lparr>q_userId = userId (user currentUser),
        q_username = usernameOrEmpty (user currentUser),
        q_dateFrom = startT,
        q_dateTo = endT,
        q_eventTypeId = eventTypeId input,
        q_afterEventBuffer = afterEventBuffer eventType,
        q_beforeEventBuffer = beforeEventBuffer eventType\<rparr>
       currentUser eventType None"

text \<open>What the callback of \<open>users.map\<close> returns for a host and its lookup result.\<close>

definition toUserAvailability :: "Host \<Rightarrow> AvailabilityResult \<Rightarrow> UserAvailability" where
  "toUserAvailability currentUser r =
     \<lparr>ua_timeZone = r_timeZone r,
      ua_workingHours = r_workingHours r,
      ua_dateOverrides = r_dateOverrides r,
      busy = r_busy r,
      ua_user = currentUser\<rparr>"

text \<open>
  \<open>if (!currentSeats && _currentSeats) currentSeats = _currentSeats\<close>, run once for
  every resolved lookup, in the order in which the lookups resolve. An array, also an
  empty one, is truthy.
\<close>

fun settleCurrentSeats :: "CurrentSeats option \<Rightarrow> CurrentSeats option list \<Rightarrow> CurrentSeats option" where
  "settleCurrentSeats currentSeats [] = currentSeats"
| "settleCurrentSeats currentSeats (found # rest) =
     settleCurrentSeats
       (if currentSeats = None \<and> found \<noteq> None then found else currentSeats) rest"

text \<open>The lookup results in the order of resolution.\<close>

definition inCompletionOrder :: "nat list \<Rightarrow> 'a list \<Rightarrow> 'a list" where
  "inCompletionOrder order results = map (\<lambda>i. results ! i) (filter (\<lambda>i. i < length results) order)"

definition flattenDateOverrides :: "UserAvailability list \<Rightarrow> DateOverride list" where
  "flattenDateOverrides userAvailability =
     concat (map (\<lambda>availability.
        map (\<lambda>override.
               override\<lparr>ov_userId :=
                 (case ov_userId override of
                    None \<Rightarrow> Some (userId (user (ua_user availability)))
                  | Some u \<Rightarrow> Some u)\<rparr>)
          (ua_dateOverrides availability))
      userAvailability)"

section \<open>Generating the candidate slots\<close>

text \<open>\<open>input.duration || eventType.length\<close>: only a non-zero number is truthy.\<close>

definition durationOr :: "Duration \<Rightarrow> int \<Rightarrow> int" where
  "durationOr d n = (case d of DurationNumber k \<Rightarrow> (if k \<noteq> 0 then k else n) | _ \<Rightarrow> n)"

text \<open>\<open>eventType.slotInterval || input.duration || eventType.length\<close>.\<close>

definition slotFrequency :: "EventType \<Rightarrow> Input \<Rightarrow> int" where
  "slotFrequency eventType input =
     (case slotInterval eventType of
        Some n \<Rightarrow> (if n \<noteq> 0 then n else durationOr (duration input) (length_min eventType))
      | None \<Rightarrow> durationOr (duration input) (length_min eventType))"

text \<open>
  The values \<open>currentCheckedTime\<close> takes in the \<open>for\<close> loop of a request in
  \<open>Etc/GMT\<close>: from \<open>startTime\<close> in steps of one day while it is before
  \<open>endTime\<close>; the loop ends as well when the next day is an Invalid Date.
\<close>

function checkedTimes :: "Dayjs \<Rightarrow> Dayjs \<Rightarrow> Dayjs list" where
  "checkedTimes currentCheckedTime endT =
     (if isBefore (Some currentCheckedTime) (Some endT)
      then currentCheckedTime #
             (case addDay currentCheckedTime of
                None \<Rightarrow> []
              | Some next \<Rightarrow> checkedTimes next endT)
      else [])"
  by pat_completeness auto
termination
  by (relation "measure (\<lambda>(c, e). nat (e - c))")
     (auto simp: isBefore_def addDay_def msPerDay_def split: if_splits)

declare checkedTimes.simps [simp del]

text \<open>The checked times of a request: by the loop above, or by dayjs for a zoned one.\<close>

definition requestDays :: "Collaborators \<Rightarrow> Input \<Rightarrow> Dayjs \<Rightarrow> Dayjs \<Rightarrow> Dayjs list" where
  "requestDays ctx input startT endT =
     (if timeZone input = Some ''Etc/GMT'' then checkedTimes startT endT
      else zonedCheckedTimes ctx (timeZone input) startT endT)"

text \<open>The argument of the call of \<open>getTimeSlots\<close> for one checked time.\<close>

definition timeSlotsArgs ::
  "Input \<Rightarrow> EventType \<Rightarrow> WorkingHours list \<Rightarrow> DateOverride list \<Rightarrow> Dayjs \<Rightarrow> TimeSlotsArgs" where
  "timeSlotsArgs input eventType workingHours dateOverrides currentCheckedTime =
     \<lparr>inviteeDate = currentCheckedTime,
      eventLength = durationOr (duration input) (length_min eventType),
      arg_workingHours = workingHours,
      arg_dateOverrides = dateOverrides,
      arg_minimumBookingNotice = minimumBookingNotice eventType,
      frequency = slotFrequency eventType input\<rparr>"

text \<open>The calls of \<open>getTimeSlots\<close> the loop makes, in order, and what it collects.\<close>

definition timeSlotsCalls ::
  "Input \<Rightarrow> EventType \<Rightarrow> WorkingHours list \<Rightarrow> DateOverride list \<Rightarrow> Dayjs list
     \<Rightarrow> TimeSlotsArgs list" where
  "timeSlotsCalls input eventType workingHours dateOverrides days =
     map (timeSlotsArgs input eventType workingHours dateOverrides) days"

definition collectTimeSlots :: "Collaborators \<Rightarrow> TimeSlotsArgs list \<Rightarrow> Slot list" where
  "collectTimeSlots ctx calls = concat (map (getTimeSlots ctx) calls)"

section \<open>Filtering by availability\<close>

text \<open>
  \<open>checkIfIsAvailable({time: slot.time, ...schedule, ...availabilityCheckProps})\<close>:
  the host's busy intervals, the event type's length and the settled \<open>currentSeats\<close>.
\<close>

definition hostIsAvailable :: "int \<Rightarrow> CurrentSeats option \<Rightarrow> Slot \<Rightarrow> UserAvailability \<Rightarrow> bool" where
  "hostIsAvailable len currentSeats slot schedule =
     checkIfIsAvailable (time slot) (busy schedule) len currentSeats"

text \<open>The callback of the first \<open>timeSlots.filter\<close>.\<close>

definition fixedHostsAvailable ::
  "UserAvailability list \<Rightarrow> int \<Rightarrow> CurrentSeats option \<Rightarrow> Slot \<Rightarrow> bool" where
  "fixedHostsAvailable userAvailability len currentSeats slot =
     (let fixedHosts = filter (\<lambda>availability. isFixed (ua_user availability)) userAvailability
      in list_all (hostIsAvailable len currentSeats slot) fixedHosts)"

text \<open>The callback of \<open>slot.userIds?.filter\<close>.\<close>

definition looseHostKeeps ::
  "UserAvailability list \<Rightarrow> int \<Rightarrow> CurrentSeats option \<Rightarrow> Slot \<Rightarrow> int \<Rightarrow> bool" where
  "looseHostKeeps looseHostAvailability len currentSeats slot slotUserId =
     (case find (\<lambda>availability. userId (user (ua_user availability)) = slotUserId)
             looseHostAvailability of
        None \<Rightarrow> False
      | Some userSchedule \<Rightarrow> hostIsAvailable len currentSeats slot userSchedule)"

text \<open>The callback of \<open>availableTimeSlots.map\<close>; an undefined \<open>userIds\<close> stays undefined.\<close>

definition narrowUserIds ::
  "UserAvailability list \<Rightarrow> int \<Rightarrow> CurrentSeats option \<Rightarrow> Slot \<Rightarrow> Slot" where
  "narrowUserIds looseHostAvailability len currentSeats slot =
     slot\<lparr>userIds :=
       map_option (filter (looseHostKeeps looseHostAvailability len currentSeats slot))
         (userIds slot)\<rparr>"

text \<open>\<open>!!slot.userIds?.length\<close>.\<close>

definition hasUserIds :: "Slot \<Rightarrow> bool" where
  "hasUserIds slot = (case userIds slot of None \<Rightarrow> False | Some ids \<Rightarrow> length ids \<noteq> 0)"

definition filterFixedHosts ::
  "UserAvailability list \<Rightarrow> int \<Rightarrow> CurrentSeats option \<Rightarrow> Slot list \<Rightarrow> Slot list" where
  "filterFixedHosts userAvailability len currentSeats timeSlots =
     filter (fixedHostsAvailable userAvailability len currentSeats) timeSlots"

definition filterLooseHosts ::
  "UserAvailability list \<Rightarrow> int \<Rightarrow> CurrentSeats option \<Rightarrow> Slot list \<Rightarrow> Slot list" where
  "filterLooseHosts userAvailability len currentSeats availableTimeSlots =
     (let looseHostAvailability =
            filter (\<lambda>availability. \<not> isFixed (ua_user availability)) userAvailability
      in if length looseHostAvailability > 0
         then filter hasUserIds
                (map (narrowUserIds looseHostAvailability len currentSeats) availableTimeSlots)
         else availableTimeSlots)"

text \<open>The slots after both availability filters.\<close>

definition availabilityFiltered ::
  "UserAvailability list \<Rightarrow> int \<Rightarrow> CurrentSeats option \<Rightarrow> Slot list \<Rightarrow> Slot list" where
  "availabilityFiltered userAvailability len currentSeats timeSlots =
     filterLooseHosts userAvailability len currentSeats
       (filterFixedHosts userAvailability len currentSeats timeSlots)"

section \<open>Bounds and aggregation\<close>

definition periodConfig :: "EventType \<Rightarrow> PeriodConfig" where
  "periodConfig eventType =
     \<lparr>p_periodType = periodType eventType,
      p_periodStartDate = periodStartDate eventType,
      p_periodEndDate = periodEndDate eventType,
      p_periodCountCalendarDays = periodCountCalendarDays eventType,
      p_periodDays = periodDays eventType\<rparr>"

definition isTimeWithinBounds :: "Collaborators \<Rightarrow> EventType \<Rightarrow> Dayjs \<Rightarrow> bool" where
  "isTimeWithinBounds ctx eventType t = (\<not> isTimeOutOfBounds ctx t (periodConfig eventType))"

text \<open>
  \<open>Array.prototype.filter\<close> with a record of the elements its callback was called
  on: the kept elements and the tested ones.
\<close>

fun filterTested :: "('a \<Rightarrow> bool) \<Rightarrow> 'a list \<Rightarrow> 'a list \<times> 'a list" where
  "filterTested p [] = ([], [])"
| "filterTested p (x # xs) =
     (let (kept, tested) = filterTested p xs
      in (if p x then x # kept else kept, x # tested))"

text \<open>
  \<open>currentSeats[currentSeats.findIndex((booking) => booking.startTime.toISOString()
  === time.toISOString())]\<close>: the first booking that starts at the given time.
\<close>

definition seatAt :: "CurrentSeats option \<Rightarrow> Dayjs \<Rightarrow> SeatBooking option" where
  "seatAt currentSeats t =
     (case currentSeats of
        None \<Rightarrow> None
      | Some bookings \<Rightarrow> find (\<lambda>booking. startTime booking = t) bookings)"

text \<open>
  \<open>(eventType.hosts ? eventType.hosts.map((host) => host.user) : eventType.users)
  .map((user) => user.username || "")\<close>; an array, also an empty one, is truthy.
\<close>

definition slotUsers :: "EventType \<Rightarrow> string list" where
  "slotUsers eventType =
     map usernameOrEmpty
       (case hosts eventType of Some hs \<Rightarrow> map user hs | None \<Rightarrow> users eventType)"

text \<open>
  The object pushed for one slot: the first booking of \<open>currentSeats\<close> at the slot's
  time, when there is one, gives \<open>attendees\<close> and \<open>bookingUid\<close>.
\<close>

definition describeSlot :: "EventType \<Rightarrow> CurrentSeats option \<Rightarrow> Slot \<Rightarrow> SlotDescriptor" where
  "describeSlot eventType currentSeats slot =
     (let booking =
            (if hasSeatAt currentSeats (time slot) then seatAt currentSeats (time slot)
             else None)
      in \<lparr>slot_userIds = userIds slot,
          slot_time = time slot,
          slot_users = slotUsers eventType,
          slot_attendees = map_option attendees booking,
          slot_bookingUid = map_option uid booking\<rparr>)"

text \<open>
  \<open>r[key] = r[key] || []; r[key].push(d)\<close> on an object whose keys keep their
  insertion order.
\<close>

fun pushSlot ::
  "(int \<times> SlotDescriptor list) list \<Rightarrow> int \<Rightarrow> SlotDescriptor \<Rightarrow> (int \<times> SlotDescriptor list) list" where
  "pushSlot [] key d = [(key, [d])]"
| "pushSlot ((k, ds) # r) key d =
     (if k = key then (k, ds @ [d]) # r else (k, ds) # pushSlot r key d)"

definition aggregateSlots ::
  "Collaborators \<Rightarrow> EventType \<Rightarrow> CurrentSeats option \<Rightarrow> Slot list
     \<Rightarrow> (int \<times> SlotDescriptor list) list" where
  "aggregateSlots ctx eventType currentSeats availableTimeSlots =
     foldl (\<lambda>r slot. pushSlot r (formatDay ctx (time slot))
                       (describeSlot eventType currentSeats slot))
       [] availableTimeSlots"

section \<open>getSchedule\<close>

text \<open>
  One run of \<open>getSchedule\<close> past its validation: the returned \<open>slots\<close>, and for the
  properties about the order of the stages, the settled \<open>currentSeats\<close>, the
  \<open>userAvailability\<close> list, the calls of \<open>getTimeSlots\<close>, the \<open>timeSlots\<close> they
  gave and the slots the bounds predicate was called on.
\<close>

record Run =
  run_slots :: "(int \<times> SlotDescriptor list) list"
  run_currentSeats :: "CurrentSeats option"
  run_userAvailability :: "UserAvailability list"
  run_calls :: "TimeSlotsArgs list"
  run_timeSlots :: "Slot list"
  run_boundsTested :: "Slot list"

definition computeSchedule ::
  "Collaborators \<Rightarrow> Input \<Rightarrow> EventType \<Rightarrow> Dayjs \<Rightarrow> Dayjs \<Rightarrow> Run" where
  "computeSchedule ctx input eventType startT endT =
     (let hostList = scheduleUsers eventType;
          results = map (lookupAvailability ctx input eventType startT endT) hostList;
          currentSeats =
            settleCurrentSeats None
              (map r_currentSeats (inCompletionOrder (completionOrder ctx) results));
          userAvailability =
            map (\<lambda>currentUser.
                   toUserAvailability currentUser
                     (lookupAvailability ctx input eventType startT endT currentUser))
              hostList;
          dateOverrides = flattenDateOverrides userAvailability;
          workingHours = getAggregateWorkingHours ctx userAvailability (schedulingType eventType);
          calls = timeSlotsCalls input eventType workingHours dateOverrides
                    (requestDays ctx input startT endT);
          timeSlots = collectTimeSlots ctx calls;
          availableTimeSlots =
            availabilityFiltered userAvailability (length_min eventType) currentSeats timeSlots;
          (kept, tested) = filterTested (\<lambda>slot. isTimeWithinBounds ctx eventType (time slot))
                             availableTimeSlots
      in \<lparr>run_slots = aggregateSlots ctx eventType currentSeats kept,
          run_currentSeats = currentSeats,
          run_userAvailability = userAvailability,
          run_calls = calls,
          run_timeSlots = timeSlots,
          run_boundsTested = tested\<rparr>)"

definition runSchedule :: "Collaborators \<Rightarrow> Input \<Rightarrow> Failure + Run" where
  "runSchedule ctx input =
     (case validateRequest ctx input of
        Inl err \<Rightarrow> Inl err
      | Inr (eventType, startT, endT) \<Rightarrow> Inr (computeSchedule ctx input eventType startT endT))"

definition getSchedule ::
  "Collaborators \<Rightarrow> Input \<Rightarrow> Failure + (int \<times> SlotDescriptor list) list" where
  "getSchedule ctx input =
     (case runSchedule ctx input of Inl err \<Rightarrow> Inl err | Inr run \<Rightarrow> Inr (run_slots run))"

text \<open>The slot descriptors of an output, day by day, and their times.\<close>

definition slotDescriptors :: "(int \<times> SlotDescriptor list) list \<Rightarrow> SlotDescriptor list" where
  "slotDescriptors out = concat (map snd out)"

definition slotTimes :: "(int \<times> SlotDescriptor list) list \<Rightarrow> Dayjs list" where
  "slotTimes out = map slot_time (slotDescriptors out)"

section \<open>The slot generator of the specification\<close>

text \<open>
  Modelled from the spec: \<open>getTimeSlots\<close> (\<open>@calcom/lib/slots\<close>) is not among the
  source files. Section 4.2 of the specification describes it: for the day of
  \<open>inviteeDate\<close>, start times beginning at the later of the day's working-hours start
  and the minimum-notice boundary from now, stepping by \<open>frequency\<close> (by the duration
  when the frequency is zero), until the remaining time is less than the duration; a
  date override of a user for that day replaces that user's working hours. Working
  hours are minutes from the start of the day, and day 0 of a week is Sunday.
\<close>

definition slotStarts :: "Dayjs \<Rightarrow> Dayjs \<Rightarrow> int \<Rightarrow> int \<Rightarrow> Dayjs list" where
  "slotStarts first windowEnd len step =
     (if step \<le> 0 \<or> windowEnd - first < len then []
      else map (\<lambda>k. first + int k * step) [0 ..< nat ((windowEnd - len - first) div step) + 1])"

text \<open>
  Modelled from the spec: the UTC day number and the weekday of an instant, parts of the
  missing \<open>getTimeSlots\<close>; 1970-01-01 was a Thursday.
\<close>

definition utcDay :: "Dayjs \<Rightarrow> int" where
  "utcDay t = t div msPerDay"

definition weekdayOf :: "Dayjs \<Rightarrow> nat" where
  "weekdayOf t = nat ((utcDay t + 4) mod 7)"

text \<open>
  Modelled from the spec: the windows of the day of \<open>inviteeDate\<close> in the missing
  \<open>getTimeSlots\<close>, each with the user it belongs to: the intervals of the date overrides
  for that day, and the working hours of that weekday of the users without an override.
\<close>

definition dayWindows :: "TimeSlotsArgs \<Rightarrow> (Dayjs \<times> Dayjs \<times> int option) list" where
  "dayWindows args =
     (let day = utcDay (inviteeDate args);
          dayStart = day * msPerDay;
          overrides = filter (\<lambda>ov. ov_date ov = day) (arg_dateOverrides args);
          recurring =
            filter (\<lambda>wh. weekdayOf (inviteeDate args) \<in> set (wh_days wh) \<and>
                          \<not> list_ex (\<lambda>ov. ov_userId ov = wh_userId wh) overrides)
              (arg_workingHours args)
      in concat (map (\<lambda>ov. map (\<lambda>(a, b). (a, b, ov_userId ov)) (ov_intervals ov)) overrides) @
         map (\<lambda>wh. (dayStart + wh_startTime wh * msPerMinute,
                     dayStart + wh_endTime wh * msPerMinute,
                     wh_userId wh))
           recurring)"

text \<open>
  Modelled from the spec: the missing \<open>getTimeSlots\<close> itself, read at the instant
  \<open>now\<close>; a slot carries the user of the window it comes from.
\<close>

definition specTimeSlots :: "Dayjs \<Rightarrow> TimeSlotsArgs \<Rightarrow> Slot list" where
  "specTimeSlots now args =
     (let step = (if frequency args = 0 then eventLength args else frequency args);
          notice = now + arg_minimumBookingNotice args * msPerMinute
      in concat (map (\<lambda>(a, b, u).
           map (\<lambda>t. \<lparr>time = t, userIds = Some (case u of None \<Rightarrow> [] | Some i \<Rightarrow> [i])\<rparr>)
             (slotStarts (max a notice) b (eventLength args * msPerMinute) (step * msPerMinute)))
         (dayWindows args)))"

section \<open>The bounds predicate of the specification\<close>

text \<open>
  Modelled from the spec: \<open>isTimeOutOfBounds\<close> (\<open>@calcom/lib/isOutOfBounds\<close>) is
  not among the source files. Section 4.4 of the specification describes its negation:
  an unlimited period admits every time; a fixed range admits the times from
  \<open>periodStartDate\<close> to \<open>periodEndDate\<close>, both included (a missing date bounds
  nothing); a rolling window admits the times up to the end of the window, a number of
  calendar or business days from now that the specification does not detail and that
  is a parameter here.
\<close>

definition specIsTimeOutOfBounds :: "(PeriodConfig \<Rightarrow> Dayjs) \<Rightarrow> Dayjs \<Rightarrow> PeriodConfig \<Rightarrow> bool" where
  "specIsTimeOutOfBounds rollingEnd t cfg =
     (case p_periodType cfg of
        UNLIMITED \<Rightarrow> False
      | ROLLING \<Rightarrow> t > rollingEnd cfg
      | RANGE \<Rightarrow>
          \<not> ((case p_periodStartDate cfg of None \<Rightarrow> True | Some a \<Rightarrow> a \<le> t) \<and>
             (case p_periodEndDate cfg of None \<Rightarrow> True | Some b \<Rightarrow> t \<le> b)))"

section \<open>The availability filters in the words of the specification\<close>

text \<open>
  Every fixed host is available at the slot; the loose host with a given user id (the
  first one, should several share the id) is available at the slot; and the slots that
  remain of a list: those at which every fixed host is available, with \<open>userIds\<close>
  narrowed to the available loose hosts and the slots left without \<open>userIds\<close> dropped
  when there is a loose host.
\<close>

abbreviation everyFixedHostAvailable ::
  "UserAvailability list \<Rightarrow> int \<Rightarrow> CurrentSeats option \<Rightarrow> Slot \<Rightarrow> bool" where
  "everyFixedHostAvailable ua len cs g \<equiv>
     (\<forall>a \<in> set ua. isFixed (ua_user a) \<longrightarrow> checkIfIsAvailable (time g) (busy a) len cs)"

abbreviation looseHostAvailable ::
  "UserAvailability list \<Rightarrow> int \<Rightarrow> CurrentSeats option \<Rightarrow> Slot \<Rightarrow> int \<Rightarrow> bool" where
  "looseHostAvailable ua len cs g u \<equiv>
     (\<exists>a. find (\<lambda>a. userId (user (ua_user a)) = u) (filter (\<lambda>a. \<not> isFixed (ua_user a)) ua)
            = Some a \<and>
          checkIfIsAvailable (time g) (busy a) len cs)"

abbreviation slotsLeft ::
  "UserAvailability list \<Rightarrow> int \<Rightarrow> CurrentSeats option \<Rightarrow> Slot list \<Rightarrow> Slot list" where
  "slotsLeft ua len cs slots \<equiv>
     (if \<exists>a \<in> set ua. \<not> isFixed (ua_user a)
      then filter (\<lambda>g. \<exists>ids. userIds g = Some ids \<and> ids \<noteq> [])
             (map (\<lambda>g. g\<lparr>userIds := map_option (filter (looseHostAvailable ua len cs g))
                                        (userIds g)\<rparr>)
                (filter (everyFixedHostAvailable ua len cs) slots))
      else filter (everyFixedHostAvailable ua len cs) slots)"

text \<open>The period fields of an event type, as \<open>isTimeOutOfBounds\<close> is given them.\<close>

abbreviation periodOf :: "EventType \<Rightarrow> PeriodConfig" where
  "periodOf et \<equiv>
     \<lparr>p_periodType = periodType et, p_periodStartDate = periodStartDate et,
      p_periodEndDate = periodEndDate et,
      p_periodCountCalendarDays = periodCountCalendarDays et, p_periodDays = periodDays et\<rparr>"

section \<open>Example requests\<close>

text \<open>
  The scenario of section 8 of the specification: one host with working hours
  09:00--17:00 on every day and no busy interval, an event of 30 minutes with no slot
  interval and no period restriction, read on 2023-12-01.
\<close>

definition alice :: User where
  "alice = \<lparr>userId = 1, username = Some ''alice'', allowDynamicBooking = Some True\<rparr>"

definition bob :: User where
  "bob = \<lparr>userId = 2, username = Some ''bob'', allowDynamicBooking = Some True\<rparr>"

definition carol :: User where
  "carol = \<lparr>userId = 3, username = Some ''carol'', allowDynamicBooking = Some True\<rparr>"

definition workdayEvent :: EventType where
  "workdayEvent =
     \<lparr>minimumBookingNotice = 0, length_min = 30, seatsPerTimeSlot = None, slotInterval = None,
      beforeEventBuffer = 0, afterEventBuffer = 0, schedulingType = None,
      periodType = UNLIMITED, periodStartDate = None, periodEndDate = None,
      periodCountCalendarDays = None, periodDays = None, metadata = ''{}'',
      hosts = Some [], users = [alice]\<rparr>"

text \<open>2024-01-01T00:00Z, 12:00Z of that day, and 2024-01-02T00:00Z.\<close>

definition jan1 :: Dayjs where
  "jan1 = 1704067200000"

definition jan1noon :: Dayjs where
  "jan1noon = 1704110400000"

definition jan2 :: Dayjs where
  "jan2 = 1704153600000"

definition parseExample :: "string \<Rightarrow> Dayjs option" where
  "parseExample s =
     (if s = ''2024-01-01T00:00:00Z'' then Some jan1
      else if s = ''2024-01-01T12:00:00Z'' then Some jan1noon
      else if s = ''2024-01-02T00:00:00Z'' then Some jan2
      else None)"

definition workdayCtx :: Collaborators where
  "workdayCtx =
     \<lparr>findUniqueEventType = (\<lambda>i. if i = Some 7 then Some workdayEvent else None),
      findManyUsers = (\<lambda>names. []),
      getDefaultEvent = (\<lambda>slug. workdayEvent\<lparr>hosts := None, users := []\<rparr>),
      parseMetadata = Some,
      dayjsUtc = parseExample,
      dayjsTz = (\<lambda>s z. if z = Some ''Mars/Olympus'' then TzThrows else TzValue (parseExample s)),
      zonedCheckedTimes = (\<lambda>z s e. []),
      formatDay = utcDay,
      getUserAvailability = (\<lambda>q h e c.
        \<lparr>r_busy = [],
         r_workingHours =
           [\<lparr>wh_days = [0, 1, 2, 3, 4, 5, 6], wh_startTime = 540, wh_endTime = 1020,
             wh_userId = Some (q_userId q)\<rparr>],
         r_dateOverrides = [], r_currentSeats = None, r_timeZone = ''Etc/GMT''\<rparr>),
      completionOrder = [0],
      getAggregateWorkingHours = (\<lambda>ua st. concat (map ua_workingHours ua)),
      getTimeSlots = specTimeSlots 1701388800000,
      isTimeOutOfBounds = specIsTimeOutOfBounds (\<lambda>cfg. 0)\<rparr>"

definition workdayInput :: Input where
  "workdayInput =
     \<lparr>input_startTime = ''2024-01-01T00:00:00Z'', input_endTime = ''2024-01-02T00:00:00Z'',
      eventTypeId = Some 7, eventTypeSlug = ''30min'', timeZone = Some ''Etc/GMT'',
      usernameList = None, debug = None, duration = DurationUndefined\<rparr>"

text \<open>The same request for the morning only.\<close>

definition morningInput :: Input where
  "morningInput = workdayInput\<lparr>input_endTime := ''2024-01-01T12:00:00Z''\<rparr>"

text \<open>A dynamic booking for a user name that no user has.\<close>

definition ghostInput :: Input where
  "ghostInput = workdayInput\<lparr>eventTypeId := None, usernameList := Some [''ghost'']\<rparr>"

text \<open>A request for an event type that does not exist.\<close>

definition missingInput :: Input where
  "missingInput = workdayInput\<lparr>eventTypeId := Some 8\<rparr>"

text \<open>A request in a time zone that the time-zone conversion does not know.\<close>

definition marsInput :: Input where
  "marsInput = workdayInput\<lparr>timeZone := Some ''Mars/Olympus''\<rparr>"

text \<open>
  A round-robin event with seats: alice is a fixed host, bob and carol are loose
  hosts. Six candidate slots on 2024-01-01, every 30 minutes from 09:00 to 11:30.
  Bob is busy 09:00--09:30, carol 10:00--10:30 and alice 11:00--11:30; bob's lookup
  reports a seated booking at 09:00 and carol's one at 10:00 and one at 11:30; the
  lookups resolve in the order carol, bob, alice. The period is the range from
  2024-01-01T00:00Z to 10:00, and the slot at 10:30 carries no \<open>userIds\<close>.
\<close>

definition nineOClock :: Dayjs where
  "nineOClock = 1704099600000"

definition slotAt :: "int \<Rightarrow> Dayjs" where
  "slotAt k = nineOClock + 30 * k * msPerMinute"

definition bobSeats :: CurrentSeats where
  "bobSeats = [\<lparr>uid = ''booking-bob'', startTime = slotAt 0, attendees = 3\<rparr>]"

definition carolSeats :: CurrentSeats where
  "carolSeats =
     [\<lparr>uid = ''booking-carol'', startTime = slotAt 2, attendees = 1\<rparr>,
      \<lparr>uid = ''booking-late'', startTime = slotAt 5, attendees = 2\<rparr>]"

definition teamEvent :: EventType where
  "teamEvent =
     \<lparr>minimumBookingNotice = 0, length_min = 30, seatsPerTimeSlot = Some 5,
      slotInterval = Some 15, beforeEventBuffer = 0, afterEventBuffer = 0,
      schedulingType = Some ROUND_ROBIN, periodType = RANGE, periodStartDate = Some jan1,
      periodEndDate = Some (slotAt 2), periodCountCalendarDays = None, periodDays = None,
      metadata = ''{}'',
      hosts = Some [\<lparr>isFixed = True, user = alice\<rparr>, \<lparr>isFixed = False, user = bob\<rparr>,
                    \<lparr>isFixed = False, user = carol\<rparr>],
      users = [alice, bob, carol]\<rparr>"

definition teamLookup :: "int \<Rightarrow> AvailabilityResult" where
  "teamLookup i =
     \<lparr>r_busy =
        (if i = 1 then [\<lparr>busy_start = slotAt 4, busy_end = slotAt 5\<rparr>]
         else if i = 2 then [\<lparr>busy_start = slotAt 0, busy_end = slotAt 1\<rparr>]
         else [\<lparr>busy_start = slotAt 2, busy_end = slotAt 3\<rparr>]),
      r_workingHours = [], r_dateOverrides = [],
      r_currentSeats =
        (if i = 1 then None else if i = 2 then Some bobSeats else Some carolSeats),
      r_timeZone = ''Etc/GMT''\<rparr>"

definition teamSlots :: "Slot list" where
  "teamSlots =
     [\<lparr>time = slotAt 0, userIds = Some [1, 2, 3]\<rparr>,
      \<lparr>time = slotAt 1, userIds = Some [1, 2, 3]\<rparr>,
      \<lparr>time = slotAt 2, userIds = Some [1, 2, 3]\<rparr>,
      \<lparr>time = slotAt 3, userIds = None\<rparr>,
      \<lparr>time = slotAt 4, userIds = Some [1, 2, 3]\<rparr>,
      \<lparr>time = slotAt 5, userIds = Some [1, 2, 3]\<rparr>]"

definition teamCtx :: Collaborators where
  "teamCtx =
     \<lparr>findUniqueEventType = (\<lambda>i. if i = Some 9 then Some teamEvent else None),
      findManyUsers = (\<lambda>names. []),
      getDefaultEvent = (\<lambda>slug. teamEvent\<lparr>hosts := None, users := []\<rparr>),
      parseMetadata = Some,
      dayjsUtc = parseExample,
      dayjsTz = (\<lambda>s z. if z = Some ''Mars/Olympus'' then TzThrows else TzValue (parseExample s)),
      zonedCheckedTimes = (\<lambda>z s e. []),
      formatDay = utcDay,
      getUserAvailability = (\<lambda>q h e c. teamLookup (q_userId q)),
      completionOrder = [2, 1, 0],
      getAggregateWorkingHours = (\<lambda>ua st. concat (map ua_workingHours ua)),
      getTimeSlots = (\<lambda>args. if inviteeDate args = jan1 then teamSlots else []),
      isTimeOutOfBounds = specIsTimeOutOfBounds (\<lambda>cfg. 0)\<rparr>"

definition teamInput :: Input where
  "teamInput = workdayInput\<lparr>eventTypeId := Some 9, duration := DurationNumber 45\<rparr>"

text \<open>The \<open>userAvailability\<close> list of the team request.\<close>

definition teamAvailability :: "UserAvailability list" where
  "teamAvailability =
     map (\<lambda>h. toUserAvailability h (teamLookup (userId (user h))))
       [\<lparr>isFixed = True, user = alice\<rparr>, \<lparr>isFixed = False, user = bob\<rparr>,
        \<lparr>isFixed = False, user = carol\<rparr>]"

section \<open>Auxiliary facts\<close>

lemma filterTested_eq: "filterTested p xs = (filter p xs, xs)"
  by (induction xs) auto

lemma pushSlot_set:
  "set (slotDescriptors (pushSlot r key d)) = insert d (set (slotDescriptors r))"
  by (induction r key d rule: pushSlot.induct) (auto simp: slotDescriptors_def)

lemma foldl_pushSlot_set:
  "set (slotDescriptors (foldl (\<lambda>r slot. pushSlot r (k slot) (f slot)) r xs))
     = set (slotDescriptors r) \<union> f ` set xs"
  by (induction xs arbitrary: r) (auto simp: pushSlot_set)

lemma aggregateSlots_set:
  "set (slotDescriptors (aggregateSlots ctx eventType currentSeats xs))
     = describeSlot eventType currentSeats ` set xs"
  by (simp add: aggregateSlots_def foldl_pushSlot_set) (simp add: slotDescriptors_def)

lemma busyTimeAllows_iff:
  assumes "t < e" and "busy_start b \<le> busy_end b"
  shows "busyTimeAllows (Some t) (Some e) b = (\<not> (t < busy_end b \<and> e > busy_start b))"
  using assms
  by (auto simp: busyTimeAllows_def Let_def isBetween_def isBefore_def isAfter_def
      leftOpen_def rightOpen_def)

lemma hasSeatAt_available:
  "hasSeatAt currentSeats t \<Longrightarrow> checkIfIsAvailable t bs len currentSeats"
  by (simp add: checkIfIsAvailable_def)

section \<open>The overlap rule of the availability check\<close>

text \<open>
  C1. When no booking of \<open>currentSeats\<close> starts at the slot's time, the event length
  is positive, every busy interval has its start no later than its end, and the end of
  the slot is a valid date, \<open>checkIfIsAvailable\<close> returns false exactly when some busy
  interval \<open>b\<close> has \<open>t < b.end\<close> and \<open>t + d > b.start\<close>. A busy interval that
  ends exactly at \<open>t\<close>, or starts exactly at \<open>t + d\<close>, therefore leaves the slot
  available.
\<close>

theorem checkIfIsAvailable_overlap:
  assumes "0 < len"
    and "\<forall>b \<in> set bs. busy_start b \<le> busy_end b"
    and "validDate (t + len * msPerMinute)"
    and "\<not> hasSeatAt currentSeats t"
  shows "checkIfIsAvailable t bs len currentSeats = (\<not> (\<exists>b \<in> set bs. overlaps t len b))"
proof -
  have slotEnd: "addMinutes t len = Some (t + len * msPerMinute)"
    using assms(3) by (simp add: addMinutes_def)
  have "t < t + len * msPerMinute"
    using assms(1) by (simp add: msPerMinute_def)
  then have "\<forall>b \<in> set bs.
      busyTimeAllows (Some t) (Some (t + len * msPerMinute)) b = (\<not> overlaps t len b)"
    using assms(2) by (simp add: busyTimeAllows_iff overlaps_def)
  then show ?thesis
    using assms(4) slotEnd by (simp add: checkIfIsAvailable_def Let_def list_all_iff)
qed

text \<open>
  The examples of the specification: with a busy interval 10:00--10:30 a slot of 30
  minutes at 10:30 is available and one at 10:15 is not; a busy interval 11:00--11:30
  leaves the slot at 10:30 available as well.
\<close>

theorem checkIfIsAvailable_overlap_witness:
  "checkIfIsAvailable 37800000 [\<lparr>busy_start = 36000000, busy_end = 37800000\<rparr>] 30 None
   \<and> checkIfIsAvailable 37800000 [\<lparr>busy_start = 39600000, busy_end = 41400000\<rparr>] 30 None
   \<and> \<not> checkIfIsAvailable 36900000 [\<lparr>busy_start = 36000000, busy_end = 37800000\<rparr>] 30 None"
  using checkIfIsAvailable_overlap
      [of 30 "[\<lparr>busy_start = 36000000, busy_end = 37800000\<rparr>]" 37800000 None]
    checkIfIsAvailable_overlap
      [of 30 "[\<lparr>busy_start = 39600000, busy_end = 41400000\<rparr>]" 37800000 None]
    checkIfIsAvailable_overlap
      [of 30 "[\<lparr>busy_start = 36000000, busy_end = 37800000\<rparr>]" 36900000 None]
  by (simp add: overlaps_def hasSeatAt_def validDate_def msPerMinute_def)

text \<open>
  At the end of the range of dates the rule fails: a slot of 30 minutes that starts one
  minute before the last valid date has an Invalid Date as its end, every comparison
  with it is false, and the slot is available although the busy interval of the last
  half minute overlaps its window.
\<close>

theorem checkIfIsAvailable_overlap_counterexample:
  "checkIfIsAvailable 8639999999940000
     [\<lparr>busy_start = 8639999999970000, busy_end = 8640000000000000\<rparr>] 30 None
   \<and> overlaps 8639999999940000 30
       \<lparr>busy_start = 8639999999970000, busy_end = 8640000000000000\<rparr>"
  by (simp add: checkIfIsAvailable_def hasSeatAt_def busyTimeAllows_def Let_def isBetween_def
      isBefore_def isAfter_def leftOpen_def rightOpen_def addMinutes_def validDate_def overlaps_def
      msPerMinute_def)

section \<open>Facts about a run\<close>

lemma runSchedule_Inr:
  assumes "runSchedule ctx input = Inr run" and "validateRequest ctx input = Inr (et, s, e)"
  shows "run = computeSchedule ctx input et s e"
  using assms by (simp add: runSchedule_def)

lemma getSchedule_Inr:
  assumes "getSchedule ctx input = Inr out" and "validateRequest ctx input = Inr (et, s, e)"
  shows "out = run_slots (computeSchedule ctx input et s e)"
  using assms by (simp add: getSchedule_def runSchedule_def)

lemma run_calls_args:
  "call \<in> set (run_calls (computeSchedule ctx input et s e)) \<Longrightarrow>
     \<exists>wh ov c. call = timeSlotsArgs input et wh ov c \<and> c \<in> set (requestDays ctx input s e)"
  by (auto simp: computeSchedule_def Let_def filterTested_eq timeSlotsCalls_def)

lemma run_timeSlots:
  "run_timeSlots (computeSchedule ctx input et s e)
     = collectTimeSlots ctx (run_calls (computeSchedule ctx input et s e))"
  by (simp add: computeSchedule_def Let_def filterTested_eq)

lemma run_userAvailability:
  "run_userAvailability (computeSchedule ctx input et s e)
     = map (\<lambda>h. toUserAvailability h (lookupAvailability ctx input et s e h)) (scheduleUsers et)"
  by (simp add: computeSchedule_def Let_def filterTested_eq)

lemma run_boundsTested:
  "run_boundsTested (computeSchedule ctx input et s e)
     = availabilityFiltered (run_userAvailability (computeSchedule ctx input et s e))
         (length_min et) (run_currentSeats (computeSchedule ctx input et s e))
         (run_timeSlots (computeSchedule ctx input et s e))"
  by (simp add: computeSchedule_def Let_def filterTested_eq)

lemma run_slots_set:
  "set (slotDescriptors (run_slots (computeSchedule ctx input et s e)))
     = describeSlot et (run_currentSeats (computeSchedule ctx input et s e)) `
         {slot \<in> set (run_boundsTested (computeSchedule ctx input et s e)).
            \<not> isTimeOutOfBounds ctx (time slot) (periodOf et)}"
  by (simp add: computeSchedule_def Let_def filterTested_eq aggregateSlots_set
      isTimeWithinBounds_def periodConfig_def)

lemma availabilityFiltered_exact:
  "availabilityFiltered ua len cs slots = slotsLeft ua len cs slots"
proof -
  let ?loose = "filter (\<lambda>a. \<not> isFixed (ua_user a)) ua"
  have fixed: "fixedHostsAvailable ua len cs = everyFixedHostAvailable ua len cs"
    by (rule ext) (auto simp: fixedHostsAvailable_def list_all_iff hostIsAvailable_def)
  have keeps: "\<And>g. looseHostKeeps ?loose len cs g = looseHostAvailable ua len cs g"
    by (rule ext) (auto simp: looseHostKeeps_def hostIsAvailable_def split: option.splits)
  have narrow: "narrowUserIds ?loose len cs
      = (\<lambda>g. g\<lparr>userIds := map_option (filter (looseHostAvailable ua len cs g)) (userIds g)\<rparr>)"
    by (rule ext) (simp add: narrowUserIds_def keeps)
  have has: "hasUserIds = (\<lambda>g. \<exists>ids. userIds g = Some ids \<and> ids \<noteq> [])"
    by (rule ext) (simp add: hasUserIds_def split: option.splits)
  have nonempty: "(length ?loose > 0) = (\<exists>a \<in> set ua. \<not> isFixed (ua_user a))"
    by (auto simp: filter_empty_conv)
  show ?thesis
    unfolding availabilityFiltered_def filterLooseHosts_def filterFixedHosts_def Let_def
      nonempty fixed narrow has ..
qed

lemma run_tested_exact:
  "run_boundsTested (computeSchedule ctx input et s e)
     = slotsLeft (run_userAvailability (computeSchedule ctx input et s e))
         (length_min et) (run_currentSeats (computeSchedule ctx input et s e))
         (run_timeSlots (computeSchedule ctx input et s e))"
  unfolding run_boundsTested availabilityFiltered_exact ..

lemma run_output:
  "(\<forall>d \<in> set (slotDescriptors (run_slots (computeSchedule ctx input et s e))).
      \<not> isTimeOutOfBounds ctx (slot_time d) (periodOf et) \<and>
      (\<exists>slot \<in> set (run_boundsTested (computeSchedule ctx input et s e)).
         time slot = slot_time d \<and> userIds slot = slot_userIds d))
   \<and> (\<forall>slot \<in> set (run_boundsTested (computeSchedule ctx input et s e)).
        \<not> isTimeOutOfBounds ctx (time slot) (periodOf et) \<longrightarrow>
        (\<exists>d \<in> set (slotDescriptors (run_slots (computeSchedule ctx input et s e))).
           slot_time d = time slot \<and> slot_userIds d = userIds slot))"
  unfolding run_slots_set by (auto simp: describeSlot_def Let_def)


lemma team_validate: "validateRequest teamCtx teamInput = Inr (teamEvent, jan1, jan2)"
  by (simp add: validateRequest_def getRegularOrDynamicEventType_def isDynamicBooking_def
      getEventType_def teamCtx_def teamInput_def workdayInput_def parseRange_def parseExample_def)

lemma team_run:
  "computeSchedule teamCtx teamInput teamEvent jan1 jan2 =
    \<lparr>run_slots =
       [(19723,
         [\<lparr>slot_userIds = Some [3], slot_time = slotAt 0,
            slot_users = [''alice'', ''bob'', ''carol''], slot_attendees = None,
            slot_bookingUid = None\<rparr>,
          \<lparr>slot_userIds = Some [2, 3], slot_time = slotAt 1,
            slot_users = [''alice'', ''bob'', ''carol''], slot_attendees = None,
            slot_bookingUid = None\<rparr>,
          \<lparr>slot_userIds = Some [2, 3], slot_time = slotAt 2,
            slot_users = [''alice'', ''bob'', ''carol''], slot_attendees = Some 1,
            slot_bookingUid = Some ''booking-carol''\<rparr>])],
     run_currentSeats = Some carolSeats,
     run_userAvailability = teamAvailability,
     run_calls =
       [\<lparr>inviteeDate = jan1, eventLength = 45, arg_workingHours = [], arg_dateOverrides = [],
         arg_minimumBookingNotice = 0, frequency = 15\<rparr>],
     run_timeSlots = teamSlots,
     run_boundsTested =
       [\<lparr>time = slotAt 0, userIds = Some [3]\<rparr>, \<lparr>time = slotAt 1, userIds = Some [2, 3]\<rparr>,
        \<lparr>time = slotAt 2, userIds = Some [2, 3]\<rparr>, \<lparr>time = slotAt 5, userIds = Some [2, 3]\<rparr>]\<rparr>"
  by code_simp

lemma team_runSchedule:
  "runSchedule teamCtx teamInput = Inr (computeSchedule teamCtx teamInput teamEvent jan1 jan2)"
  by (simp add: runSchedule_def team_validate)

lemma team_slotsLeft:
  "slotsLeft teamAvailability 30 (Some carolSeats) teamSlots =
     [\<lparr>time = slotAt 0, userIds = Some [3]\<rparr>, \<lparr>time = slotAt 1, userIds = Some [2, 3]\<rparr>,
      \<lparr>time = slotAt 2, userIds = Some [2, 3]\<rparr>, \<lparr>time = slotAt 5, userIds = Some [2, 3]\<rparr>]"
  by (simp add: teamAvailability_def toUserAvailability_def alice_def bob_def carol_def
        teamLookup_def teamSlots_def checkIfIsAvailable_def hasSeatAt_def carolSeats_def
        busyTimeAllows_def Let_def isBetween_def isBefore_def isAfter_def leftOpen_def
        rightOpen_def slotAt_def addMinutes_def validDate_def msPerMinute_def nineOClock_def)

lemma morning_validate:
  "validateRequest workdayCtx morningInput = Inr (workdayEvent, jan1, jan1noon)"
  by (simp add: validateRequest_def getRegularOrDynamicEventType_def isDynamicBooking_def
      getEventType_def workdayCtx_def morningInput_def workdayInput_def parseRange_def
      parseExample_def)

lemma morning_runSchedule:
  "runSchedule workdayCtx morningInput
     = Inr (computeSchedule workdayCtx morningInput workdayEvent jan1 jan1noon)"
  by (simp add: runSchedule_def morning_validate)

lemma morning_calls:
  "run_calls (computeSchedule workdayCtx morningInput workdayEvent jan1 jan1noon) =
     [\<lparr>inviteeDate = jan1, eventLength = 30,
       arg_workingHours =
         [\<lparr>wh_days = [0, 1, 2, 3, 4, 5, 6], wh_startTime = 540, wh_endTime = 1020,
           wh_userId = Some 1\<rparr>],
       arg_dateOverrides = [], arg_minimumBookingNotice = 0, frequency = 30\<rparr>]"
  by code_simp

lemma morning_times:
  "slotTimes (run_slots (computeSchedule workdayCtx morningInput workdayEvent jan1 jan1noon)) =
     [1704099600000, 1704101400000, 1704103200000, 1704105000000, 1704106800000,
      1704108600000, 1704110400000, 1704112200000, 1704114000000, 1704115800000,
      1704117600000, 1704119400000, 1704121200000, 1704123000000, 1704124800000,
      1704126600000]"
  by code_simp

section \<open>The two stages of the availability filter\<close>

text \<open>
  C2. In a run of \<open>getSchedule\<close> the hosts of the availability are the users of the
  request, each with the busy intervals of its lookup. The slots that reach the bounds
  filter are exactly the generated slots at which every fixed host is available; when
  the event has a loose host, their \<open>userIds\<close> are narrowed to the ids whose loose
  host is available at the slot, and the slots left with no \<open>userIds\<close> are dropped.
  The output holds no other slot: every slot descriptor stems from one of these slots,
  and each of these slots that is within the bounds has its descriptor.
\<close>

theorem two_stage_filter:
  assumes "runSchedule ctx input = Inr run"
    and "validateRequest ctx input = Inr (et, s, e)"
  shows "map ua_user (run_userAvailability run) = scheduleUsers et
     \<and> map busy (run_userAvailability run)
         = map (\<lambda>h. r_busy (lookupAvailability ctx input et s e h)) (scheduleUsers et)
     \<and> run_boundsTested run
         = slotsLeft (run_userAvailability run) (length_min et) (run_currentSeats run)
             (run_timeSlots run)
     \<and> (\<forall>d \<in> set (slotDescriptors (run_slots run)).
           \<exists>slot \<in> set (run_boundsTested run).
             time slot = slot_time d \<and> userIds slot = slot_userIds d)
     \<and> (\<forall>slot \<in> set (run_boundsTested run).
           \<not> isTimeOutOfBounds ctx (time slot) (periodOf et) \<longrightarrow>
           (\<exists>d \<in> set (slotDescriptors (run_slots run)).
              slot_time d = time slot \<and> slot_userIds d = userIds slot))"
proof -
  let ?run = "computeSchedule ctx input et s e"
  have run: "run = ?run" by (rule runSchedule_Inr [OF assms])
  have hosts: "map ua_user (run_userAvailability ?run) = scheduleUsers et"
    by (simp add: run_userAvailability toUserAvailability_def comp_def)
  have busyOf: "map busy (run_userAvailability ?run)
         = map (\<lambda>h. r_busy (lookupAvailability ctx input et s e h)) (scheduleUsers et)"
    by (simp add: run_userAvailability toUserAvailability_def comp_def)
  show ?thesis
    unfolding run using hosts busyOf run_tested_exact [of ctx input et s e]
      run_output [of ctx input et s e]
    by blast
qed

text \<open>
  In the team example alice, the fixed host, is busy at 11:00, so that slot is dropped;
  at 09:00 bob is busy and the slot keeps carol only; at 10:00 and 11:30 carol's seated
  bookings make every host available; the slot at 10:30 has no \<open>userIds\<close> and is
  dropped.
\<close>

theorem two_stage_filter_witness:
  "run_boundsTested (computeSchedule teamCtx teamInput teamEvent jan1 jan2)
     = slotsLeft teamAvailability 30 (Some carolSeats) teamSlots
   \<and> slotsLeft teamAvailability 30 (Some carolSeats) teamSlots =
     [\<lparr>time = slotAt 0, userIds = Some [3]\<rparr>, \<lparr>time = slotAt 1, userIds = Some [2, 3]\<rparr>,
      \<lparr>time = slotAt 2, userIds = Some [2, 3]\<rparr>, \<lparr>time = slotAt 5, userIds = Some [2, 3]\<rparr>]"
proof -
  have left: "run_boundsTested (computeSchedule teamCtx teamInput teamEvent jan1 jan2)
     = slotsLeft (run_userAvailability (computeSchedule teamCtx teamInput teamEvent jan1 jan2))
         (length_min teamEvent)
         (run_currentSeats (computeSchedule teamCtx teamInput teamEvent jan1 jan2))
         (run_timeSlots (computeSchedule teamCtx teamInput teamEvent jan1 jan2))"
    using two_stage_filter [OF team_runSchedule team_validate] by blast
  have ua: "run_userAvailability (computeSchedule teamCtx teamInput teamEvent jan1 jan2)
      = teamAvailability"
    and cs: "run_currentSeats (computeSchedule teamCtx teamInput teamEvent jan1 jan2)
      = Some carolSeats"
    and ts: "run_timeSlots (computeSchedule teamCtx teamInput teamEvent jan1 jan2) = teamSlots"
    by (simp_all add: team_run)
  have len: "length_min teamEvent = 30"
    by (simp add: teamEvent_def)
  have "run_boundsTested (computeSchedule teamCtx teamInput teamEvent jan1 jan2)
     = slotsLeft teamAvailability 30 (Some carolSeats) teamSlots"
    using left unfolding ua cs ts len .
  then show ?thesis
    using team_slotsLeft by (rule conjI)
qed

section \<open>The seat bypass\<close>

lemma mem_filter_map_filter:
  "y \<in> set (filter P (map f (filter Q xs))) \<longleftrightarrow> (\<exists>x \<in> set xs. Q x \<and> y = f x \<and> P y)"
  by auto

lemma slotsLeft_seat:
  assumes "hasSeatAt cs t"
  shows "(\<exists>slot \<in> set (slotsLeft ua len cs slots). time slot = t) \<longleftrightarrow>
         (\<exists>g \<in> set slots. time g = t \<and>
            ((\<forall>a \<in> set ua. isFixed (ua_user a)) \<or>
             (\<exists>ids u. userIds g = Some ids \<and> u \<in> set ids \<and>
                (\<exists>a \<in> set ua. \<not> isFixed (ua_user a) \<and> userId (user (ua_user a)) = u))))"
proof -
  let ?loose = "filter (\<lambda>a. \<not> isFixed (ua_user a)) ua"
  let ?fixed = "everyFixedHostAvailable ua len cs"
  let ?narrow = "\<lambda>g. g\<lparr>userIds := map_option (filter (looseHostAvailable ua len cs g))
                                        (userIds g)\<rparr>"
  let ?has = "\<lambda>g. \<exists>ids. userIds g = Some ids \<and> ids \<noteq> []"
  have avail: "checkIfIsAvailable (time g) bs len cs" if "time g = t" for g bs
    using assms that by (simp add: hasSeatAt_available)
  have fixed: "?fixed g" if "time g = t" for g
    using avail [OF that] by simp
  have loose: "looseHostAvailable ua len cs g u \<longleftrightarrow>
      (\<exists>a \<in> set ua. \<not> isFixed (ua_user a) \<and> userId (user (ua_user a)) = u)"
    if "time g = t" for g u
  proof -
    have "(\<exists>a. find (\<lambda>a. userId (user (ua_user a)) = u) ?loose = Some a) \<longleftrightarrow>
          (\<exists>a \<in> set ?loose. userId (user (ua_user a)) = u)"
      using find_None_iff [of "\<lambda>a. userId (user (ua_user a)) = u" ?loose] by auto
    moreover have "(\<exists>a \<in> set ?loose. userId (user (ua_user a)) = u) \<longleftrightarrow>
        (\<exists>a \<in> set ua. \<not> isFixed (ua_user a) \<and> userId (user (ua_user a)) = u)"
      by auto
    ultimately show ?thesis
      using avail [OF that] by simp
  qed
  show ?thesis
  proof (cases "\<exists>a \<in> set ua. \<not> isFixed (ua_user a)")
    case False
    then have allFixed: "\<forall>a \<in> set ua. isFixed (ua_user a)" by blast
    have eq: "slotsLeft ua len cs slots = filter ?fixed slots"
      using False by simp
    have "(\<exists>slot \<in> set (filter ?fixed slots). time slot = t) \<longleftrightarrow> (\<exists>g \<in> set slots. time g = t)"
      using fixed by (simp add: Bex_def) blast
    then show ?thesis
      unfolding eq using allFixed by blast
  next
    case True
    have eq: "slotsLeft ua len cs slots = filter ?has (map ?narrow (filter ?fixed slots))"
      using True by simp
    have mem: "slot \<in> set (slotsLeft ua len cs slots) \<longleftrightarrow>
        (\<exists>g \<in> set slots. ?fixed g \<and> slot = ?narrow g \<and> ?has slot)" for slot
      unfolding eq by (rule mem_filter_map_filter)
    have step: "(\<exists>slot \<in> set (slotsLeft ua len cs slots). time slot = t) \<longleftrightarrow>
          (\<exists>g \<in> set slots. time g = t \<and>
             (\<exists>ids. userIds g = Some ids \<and> filter (looseHostAvailable ua len cs g) ids \<noteq> []))"
    proof
      assume "\<exists>slot \<in> set (slotsLeft ua len cs slots). time slot = t"
      then obtain slot where "slot \<in> set (slotsLeft ua len cs slots)" "time slot = t"
        by blast
      then obtain g where g: "g \<in> set slots" "slot = ?narrow g" "?has slot"
        using mem [of slot] by blast
      have "time g = t"
        using g(2) \<open>time slot = t\<close> by simp
      moreover obtain ids' where "userIds (?narrow g) = Some ids'" "ids' \<noteq> []"
        using g(2,3) by blast
      then have "\<exists>ids. userIds g = Some ids \<and> filter (looseHostAvailable ua len cs g) ids \<noteq> []"
        by (cases "userIds g") simp_all
      ultimately show "\<exists>g \<in> set slots. time g = t \<and>
             (\<exists>ids. userIds g = Some ids \<and> filter (looseHostAvailable ua len cs g) ids \<noteq> [])"
        using g(1) by blast
    next
      assume "\<exists>g \<in> set slots. time g = t \<and>
             (\<exists>ids. userIds g = Some ids \<and> filter (looseHostAvailable ua len cs g) ids \<noteq> [])"
      then obtain g ids where g: "g \<in> set slots" "time g = t" "userIds g = Some ids"
        "filter (looseHostAvailable ua len cs g) ids \<noteq> []"
        by blast
      have "?has (?narrow g)"
        using g(3,4) by simp
      then have "?narrow g \<in> set (slotsLeft ua len cs slots)"
        using g(1) fixed [OF g(2)] mem [of "?narrow g"] by blast
      moreover have "time (?narrow g) = t"
        using g(2) by simp
      ultimately show "\<exists>slot \<in> set (slotsLeft ua len cs slots). time slot = t"
        by blast
    qed
    have "(\<exists>ids. userIds g = Some ids \<and> filter (looseHostAvailable ua len cs g) ids \<noteq> []) \<longleftrightarrow>
          (\<exists>ids u. userIds g = Some ids \<and> u \<in> set ids \<and>
                (\<exists>a \<in> set ua. \<not> isFixed (ua_user a) \<and> userId (user (ua_user a)) = u))"
      if "time g = t" for g
      using loose [OF that] by (simp add: filter_empty_conv) blast
    then show ?thesis
      unfolding step using True by blast
  qed
qed


text \<open>
  C3. When the settled \<open>currentSeats\<close> of a run has a booking that starts exactly at
  \<open>t\<close>, \<open>checkIfIsAvailable\<close> returns true at \<open>t\<close> whatever the busy
  intervals are, and busy hosts no longer decide whether a slot at \<open>t\<close> is in the
  output: it is exactly when \<open>t\<close> is within the bounds of the period and a generated
  slot at \<open>t\<close> either belongs to an event with fixed hosts only or names a loose host
  in its \<open>userIds\<close>.
\<close>

theorem seat_bypass:
  assumes "runSchedule ctx input = Inr run"
    and "validateRequest ctx input = Inr (et, s, e)"
    and "hasSeatAt (run_currentSeats run) t"
  shows "checkIfIsAvailable t bs (length_min et) (run_currentSeats run)
     \<and> ((\<exists>d \<in> set (slotDescriptors (run_slots run)). slot_time d = t) \<longleftrightarrow>
          \<not> isTimeOutOfBounds ctx t (periodOf et) \<and>
          (\<exists>g \<in> set (run_timeSlots run). time g = t \<and>
             ((\<forall>a \<in> set (run_userAvailability run). isFixed (ua_user a)) \<or>
              (\<exists>ids u. userIds g = Some ids \<and> u \<in> set ids \<and>
                 (\<exists>a \<in> set (run_userAvailability run).
                    \<not> isFixed (ua_user a) \<and> userId (user (ua_user a)) = u)))))"
proof -
  let ?run = "computeSchedule ctx input et s e"
  have run: "run = ?run" by (rule runSchedule_Inr [OF assms(1,2)])
  have seat: "hasSeatAt (run_currentSeats ?run) t"
    using assms(3) run by simp
  have emitted: "(\<exists>d \<in> set (slotDescriptors (run_slots ?run)). slot_time d = t) \<longleftrightarrow>
      \<not> isTimeOutOfBounds ctx t (periodOf et) \<and>
      (\<exists>slot \<in> set (run_boundsTested ?run). time slot = t)"
    using run_output [of ctx input et s e] by metis
  show ?thesis
    unfolding run emitted run_tested_exact slotsLeft_seat [OF seat]
    using hasSeatAt_available [OF seat] by simp
qed

text \<open>
  Carol is busy 10:00--10:30 and has a seated booking at 10:00: with it the slot at 10:00
  is available, without it the slot is not, and the slot is in the output.
\<close>

theorem seat_bypass_witness:
  "checkIfIsAvailable (slotAt 2) [\<lparr>busy_start = slotAt 2, busy_end = slotAt 3\<rparr>] 30
     (Some carolSeats)
   \<and> \<not> checkIfIsAvailable (slotAt 2) [\<lparr>busy_start = slotAt 2, busy_end = slotAt 3\<rparr>] 30 None
   \<and> (\<exists>d \<in> set (slotDescriptors (run_slots (computeSchedule teamCtx teamInput teamEvent jan1 jan2))).
        slot_time d = slotAt 2)"
proof -
  let ?run = "computeSchedule teamCtx teamInput teamEvent jan1 jan2"
  have seat: "hasSeatAt (run_currentSeats ?run) (slotAt 2)"
    by (simp add: team_run hasSeatAt_def carolSeats_def)
  note inst = seat_bypass [OF team_runSchedule team_validate seat,
      of "[\<lparr>busy_start = slotAt 2, busy_end = slotAt 3\<rparr>]"]
  have len: "length_min teamEvent = 30"
    by (simp add: teamEvent_def)
  have cs: "run_currentSeats ?run = Some carolSeats"
    by (simp add: team_run)
  have first: "checkIfIsAvailable (slotAt 2) [\<lparr>busy_start = slotAt 2, busy_end = slotAt 3\<rparr>] 30
     (Some carolSeats)"
    using inst unfolding len cs by blast
  have busyNow:
    "\<not> checkIfIsAvailable (slotAt 2) [\<lparr>busy_start = slotAt 2, busy_end = slotAt 3\<rparr>] 30 None"
    by (simp add: checkIfIsAvailable_def hasSeatAt_def busyTimeAllows_def Let_def isBetween_def
        isBefore_def isAfter_def leftOpen_def rightOpen_def slotAt_def addMinutes_def
        validDate_def msPerMinute_def nineOClock_def)
  have "\<exists>d \<in> set (slotDescriptors (run_slots ?run)). slot_time d = slotAt 2"
    by (simp add: team_run slotDescriptors_def)
  then show ?thesis
    using first busyNow by blast
qed

text \<open>
  Carol has a seated booking at 11:30 as well and a slot is generated at 11:30, but the
  period of the event ends at 10:00: the slot is not in the output.
\<close>

theorem seat_bypass_counterexample:
  "hasSeatAt (run_currentSeats (computeSchedule teamCtx teamInput teamEvent jan1 jan2)) (slotAt 5)
   \<and> \<lparr>time = slotAt 5, userIds = Some [1, 2, 3]\<rparr>
        \<in> set (run_timeSlots (computeSchedule teamCtx teamInput teamEvent jan1 jan2))
   \<and> slotTimes (run_slots (computeSchedule teamCtx teamInput teamEvent jan1 jan2))
        = [slotAt 0, slotAt 1, slotAt 2]
   \<and> slotAt 5 \<notin> set [slotAt 0, slotAt 1, slotAt 2]"
  by (simp add: team_run hasSeatAt_def carolSeats_def teamSlots_def slotTimes_def
      slotDescriptors_def slotAt_def msPerMinute_def)

section \<open>The requested range\<close>

lemma checkedTimes_sound:
  "c \<in> set (checkedTimes s e) \<Longrightarrow> (\<exists>k::nat. c = s + int k * msPerDay) \<and> c < e"
proof (induction s e rule: checkedTimes.induct)
  case (1 s e)
  have eq: "checkedTimes s e =
      (if s < e then s # (case addDay s of None \<Rightarrow> [] | Some n \<Rightarrow> checkedTimes n e) else [])"
    by (subst checkedTimes.simps) (simp add: isBefore_def)
  have less: "s < e"
    using "1.prems" unfolding eq by (cases "s < e") simp_all
  show ?case
  proof (cases "c = s")
    case True
    have "s = s + int 0 * msPerDay" by simp
    then show ?thesis using True less by blast
  next
    case False
    then have "c \<in> set (case addDay s of None \<Rightarrow> [] | Some n \<Rightarrow> checkedTimes n e)"
      using "1.prems" less unfolding eq by simp
    then obtain n where n: "addDay s = Some n" and c: "c \<in> set (checkedTimes n e)"
      by (cases "addDay s") simp_all
    have before: "isBefore (Some s) (Some e)"
      using less by (simp add: isBefore_def)
    obtain k :: nat where k: "c = n + int k * msPerDay" and "c < e"
      using "1.IH" [OF before n c] by blast
    have "n = s + msPerDay"
      using n by (simp add: addDay_def split: if_splits)
    then have "c = s + int (Suc k) * msPerDay"
      using k by (simp add: algebra_simps)
    then show ?thesis using \<open>c < e\<close> by blast
  qed
qed

lemma collectTimeSlots_iff:
  "slot \<in> set (collectTimeSlots ctx calls) \<longleftrightarrow> (\<exists>call \<in> set calls. slot \<in> set (getTimeSlots ctx call))"
  by (auto simp: collectTimeSlots_def)

lemma run_calls_inviteeDate:
  assumes "call \<in> set (run_calls (computeSchedule ctx input et s e))"
  shows "inviteeDate call \<in> set (requestDays ctx input s e)"
  using run_calls_args [OF assms] by (auto simp: timeSlotsArgs_def)

lemma slotsLeft_origin:
  assumes "slot \<in> set (slotsLeft ua len cs slots)"
  shows "\<exists>g \<in> set slots. time g = time slot"
proof (cases "\<exists>a \<in> set ua. \<not> isFixed (ua_user a)")
  case False
  with assms have "slot \<in> set (filter (everyFixedHostAvailable ua len cs) slots)"
    by simp
  then show ?thesis by auto
next
  case True
  with assms have "slot \<in> set
      (filter (\<lambda>g. \<exists>ids. userIds g = Some ids \<and> ids \<noteq> [])
        (map (\<lambda>g. g\<lparr>userIds := map_option (filter (looseHostAvailable ua len cs g))
                                   (userIds g)\<rparr>)
           (filter (everyFixedHostAvailable ua len cs) slots)))"
    by simp
  then obtain g where "g \<in> set slots"
    and "slot = g\<lparr>userIds := map_option (filter (looseHostAvailable ua len cs g)) (userIds g)\<rparr>"
    unfolding mem_filter_map_filter by blast
  then show ?thesis by auto
qed

text \<open>
  C4. Every slot of the output was returned by \<open>getTimeSlots\<close> in one of the calls
  of the day loop; for a request in \<open>Etc/GMT\<close> the \<open>inviteeDate\<close> of that call is
  the requested start plus a whole number of days and lies before the requested end.
  \<open>getSchedule\<close> gives the generator the checked day only, not the requested end,
  and does not compare the slots it returns with the requested range.
\<close>

theorem emitted_slots_generated:
  assumes "runSchedule ctx input = Inr run"
    and "validateRequest ctx input = Inr (et, s, e)"
  shows "\<forall>t \<in> set (slotTimes (run_slots run)).
           \<exists>call \<in> set (run_calls run).
             (\<exists>slot \<in> set (getTimeSlots ctx call). time slot = t) \<and>
             (timeZone input = Some ''Etc/GMT'' \<longrightarrow>
                (\<exists>k::nat. inviteeDate call = s + int k * msPerDay) \<and> inviteeDate call < e)"
proof
  fix t
  assume "t \<in> set (slotTimes (run_slots run))"
  let ?run = "computeSchedule ctx input et s e"
  have run: "run = ?run" by (rule runSchedule_Inr [OF assms])
  from \<open>t \<in> set (slotTimes (run_slots run))\<close>
  obtain d where "d \<in> set (slotDescriptors (run_slots ?run))" and "slot_time d = t"
    unfolding run slotTimes_def by auto
  then obtain slot' where "slot' \<in> set (run_boundsTested ?run)" and "time slot' = t"
    using run_output [of ctx input et s e] by blast
  then have "slot' \<in> set (slotsLeft (run_userAvailability ?run) (length_min et)
      (run_currentSeats ?run) (run_timeSlots ?run))"
    using run_tested_exact [of ctx input et s e] by simp
  from slotsLeft_origin [OF this] obtain g where "g \<in> set (run_timeSlots ?run)" and "time g = t"
    using \<open>time slot' = t\<close> by auto
  then obtain call where call: "call \<in> set (run_calls ?run)" and "g \<in> set (getTimeSlots ctx call)"
    unfolding run_timeSlots collectTimeSlots_iff by blast
  moreover have "(\<exists>k::nat. inviteeDate call = s + int k * msPerDay) \<and> inviteeDate call < e"
    if "timeZone input = Some ''Etc/GMT''"
  proof -
    have "requestDays ctx input s e = checkedTimes s e"
      using that by (simp add: requestDays_def)
    then have "inviteeDate call \<in> set (checkedTimes s e)"
      using run_calls_inviteeDate [OF call] by simp
    then show ?thesis by (rule checkedTimes_sound)
  qed
  ultimately show "\<exists>call \<in> set (run_calls run).
             (\<exists>slot \<in> set (getTimeSlots ctx call). time slot = t) \<and>
             (timeZone input = Some ''Etc/GMT'' \<longrightarrow>
                (\<exists>k::nat. inviteeDate call = s + int k * msPerDay) \<and> inviteeDate call < e)"
    using \<open>time g = t\<close> run by blast
qed

text \<open>
  The workday of the specification, requested from 00:00 to 12:00 only: the generator
  is called for 2024-01-01 as it is for the whole day, and all sixteen slots from 09:00
  to 16:30 are in the output, ten of them at or after the requested end.
\<close>

theorem emitted_slots_generated_counterexample:
  "validateRequest workdayCtx morningInput = Inr (workdayEvent, jan1, jan1noon)
   \<and> map_sum id slotTimes (getSchedule workdayCtx morningInput) =
       Inr [1704099600000, 1704101400000, 1704103200000, 1704105000000, 1704106800000,
            1704108600000, 1704110400000, 1704112200000, 1704114000000, 1704115800000,
            1704117600000, 1704119400000, 1704121200000, 1704123000000, 1704124800000,
            1704126600000]
   \<and> \<not> (1704126600000 < jan1noon)"
proof -
  have "\<not> (1704126600000 < jan1noon)"
    by (simp add: jan1noon_def)
  then show ?thesis
    by (simp add: morning_validate getSchedule_def morning_runSchedule morning_times)
qed

theorem emitted_slots_generated_witness:
  "\<exists>call \<in> set (run_calls (computeSchedule workdayCtx morningInput workdayEvent jan1 jan1noon)).
     (\<exists>k::nat. inviteeDate call = jan1 + int k * msPerDay) \<and> inviteeDate call < jan1noon \<and>
     (\<exists>slot \<in> set (getTimeSlots workdayCtx call). time slot = 1704126600000)"
proof -
  have "1704126600000
      \<in> set (slotTimes (run_slots (computeSchedule workdayCtx morningInput workdayEvent jan1 jan1noon)))"
    by (simp add: morning_times)
  moreover have "timeZone morningInput = Some ''Etc/GMT''"
    by (simp add: morningInput_def workdayInput_def)
  ultimately show ?thesis
    using emitted_slots_generated [OF morning_runSchedule morning_validate] by blast
qed

lemma host_eta: "map (\<lambda>h. \<lparr>isFixed = isFixed h, user = user h\<rparr>) hs = hs"
  by (induction hs) auto

section \<open>Fixed and loose hosts\<close>

text \<open>
  C10. When the event type has a scheduling type and a non-empty hosts list, the
  hosts with their own \<open>isFixed\<close> flags are the users of the request. Otherwise
  every user of the event type is taken, fixed exactly when the event type has no
  scheduling type or is collective; so for a round-robin event without hosts every
  user is a loose host.
\<close>

theorem scheduleUsers_isFixed:
  "(\<forall>hs. schedulingType et \<noteq> None \<and> hosts et = Some hs \<and> hs \<noteq> [] \<longrightarrow> scheduleUsers et = hs)
   \<and> (schedulingType et = None \<or> hosts et = None \<or> hosts et = Some [] \<longrightarrow>
        scheduleUsers et =
          map (\<lambda>u. \<lparr>isFixed = (schedulingType et = None \<or> schedulingType et = Some COLLECTIVE),
                       user = u\<rparr>) (users et))
   \<and> (schedulingType et = Some ROUND_ROBIN \<and> (hosts et = None \<or> hosts et = Some []) \<longrightarrow>
        (\<forall>h \<in> set (scheduleUsers et). \<not> isFixed h))"
  by (auto simp: scheduleUsers_def Let_def host_eta split: option.splits)

theorem scheduleUsers_isFixed_witness:
  "scheduleUsers teamEvent =
     [\<lparr>isFixed = True, user = alice\<rparr>, \<lparr>isFixed = False, user = bob\<rparr>,
      \<lparr>isFixed = False, user = carol\<rparr>]
   \<and> scheduleUsers workdayEvent = [\<lparr>isFixed = True, user = alice\<rparr>]
   \<and> scheduleUsers (teamEvent\<lparr>hosts := None\<rparr>) =
       [\<lparr>isFixed = False, user = alice\<rparr>, \<lparr>isFixed = False, user = bob\<rparr>,
        \<lparr>isFixed = False, user = carol\<rparr>]"
  using scheduleUsers_isFixed [of teamEvent] scheduleUsers_isFixed [of workdayEvent]
    scheduleUsers_isFixed [of "teamEvent\<lparr>hosts := None\<rparr>"]
  by (simp add: teamEvent_def workdayEvent_def)

section \<open>The stepping frequency\<close>

text \<open>
  C5. In every call of \<open>getTimeSlots\<close> the \<open>frequency\<close> is the event type's
  \<open>slotInterval\<close> when that is set and not zero, and otherwise the \<open>eventLength\<close>
  of the same call; that event length is the request's \<open>duration\<close> when it is a
  non-zero number, and the length of the event type otherwise.
\<close>

theorem frequency_default:
  assumes "runSchedule ctx input = Inr run"
    and "validateRequest ctx input = Inr (et, s, e)"
  shows "\<forall>call \<in> set (run_calls run).
           frequency call =
             (case slotInterval et of
                Some n \<Rightarrow> (if n \<noteq> 0 then n else eventLength call)
              | None \<Rightarrow> eventLength call)
           \<and> eventLength call =
             (case duration input of
                DurationNumber k \<Rightarrow> (if k \<noteq> 0 then k else length_min et)
              | _ \<Rightarrow> length_min et)"
proof
  fix call
  assume "call \<in> set (run_calls run)"
  then obtain wh ov c where "call = timeSlotsArgs input et wh ov c"
    using run_calls_args runSchedule_Inr [OF assms] by blast
  then show "frequency call =
             (case slotInterval et of
                Some n \<Rightarrow> (if n \<noteq> 0 then n else eventLength call)
              | None \<Rightarrow> eventLength call)
           \<and> eventLength call =
             (case duration input of
                DurationNumber k \<Rightarrow> (if k \<noteq> 0 then k else length_min et)
              | _ \<Rightarrow> length_min et)"
    by (simp add: timeSlotsArgs_def slotFrequency_def durationOr_def
        split: option.splits Duration.splits)
qed

text \<open>
  The team event has a slot interval of 15 and is requested with a duration of 45; the
  workday event has no slot interval, no requested duration and a length of 30.
\<close>

theorem frequency_default_witness:
  "(\<exists>call \<in> set (run_calls (computeSchedule teamCtx teamInput teamEvent jan1 jan2)).
      frequency call = 15 \<and> eventLength call = 45)
   \<and> (\<exists>call \<in> set (run_calls (computeSchedule workdayCtx morningInput workdayEvent jan1 jan1noon)).
      frequency call = 30 \<and> eventLength call = 30)"
proof -
  let ?team = "\<lparr>inviteeDate = jan1, eventLength = 45, arg_workingHours = [],
                 arg_dateOverrides = [], arg_minimumBookingNotice = 0, frequency = 15\<rparr>"
  let ?work = "\<lparr>inviteeDate = jan1, eventLength = 30,
       arg_workingHours =
         [\<lparr>wh_days = [0, 1, 2, 3, 4, 5, 6], wh_startTime = 540, wh_endTime = 1020,
           wh_userId = Some 1\<rparr>],
       arg_dateOverrides = [], arg_minimumBookingNotice = 0, frequency = 30\<rparr>"
  have t: "?team \<in> set (run_calls (computeSchedule teamCtx teamInput teamEvent jan1 jan2))"
    by (simp add: team_run)
  have w: "?work \<in> set (run_calls (computeSchedule workdayCtx morningInput workdayEvent jan1 jan1noon))"
    by (simp add: morning_calls)
  have "frequency ?team = 15 \<and> eventLength ?team = 45"
    using frequency_default [OF team_runSchedule team_validate] t
    by (auto simp: teamEvent_def teamInput_def)
  moreover have "frequency ?work = 30 \<and> eventLength ?work = 30"
    using frequency_default [OF morning_runSchedule morning_validate] w
    by (auto simp: workdayEvent_def morningInput_def workdayInput_def)
  ultimately show ?thesis using t w by blast
qed

section \<open>The bounds filter\<close>

lemma run_slotTimes:
  "set (slotTimes (run_slots (computeSchedule ctx input et s e)))
     = {t \<in> time ` set (run_boundsTested (computeSchedule ctx input et s e)).
          \<not> isTimeOutOfBounds ctx t (periodOf et)}"
proof -
  have "slot_time (describeSlot et cs slot) = time slot" for cs slot
    by (simp add: describeSlot_def Let_def)
  then show ?thesis
    unfolding slotTimes_def set_map run_slots_set by (auto simp: image_iff)
qed

text \<open>
  C6. The bounds predicate is called on exactly the slots that the two availability
  filters leave of the generated slots, and it is given the period fields of the event
  type. Every slot descriptor of the output is within these bounds and stems from one of
  the slots the predicate was called on, and each of those slots within the bounds is in
  the output: the bounds filter neither sees nor brings back a slot that an availability
  filter rejected. When the predicate is the one the specification describes, an
  unlimited period keeps every such slot, a fixed range keeps those from
  \<open>periodStartDate\<close> to \<open>periodEndDate\<close>, and a rolling window those up to the
  window's end.
\<close>

theorem bounds_filter_last:
  assumes "runSchedule ctx input = Inr run"
    and "validateRequest ctx input = Inr (et, s, e)"
  shows "run_boundsTested run
           = slotsLeft (run_userAvailability run) (length_min et) (run_currentSeats run)
               (run_timeSlots run)
     \<and> (\<forall>d \<in> set (slotDescriptors (run_slots run)).
           \<not> isTimeOutOfBounds ctx (slot_time d) (periodOf et) \<and>
           (\<exists>slot \<in> set (run_boundsTested run).
              time slot = slot_time d \<and> userIds slot = slot_userIds d))
     \<and> (\<forall>slot \<in> set (run_boundsTested run).
           \<not> isTimeOutOfBounds ctx (time slot) (periodOf et) \<longrightarrow>
           (\<exists>d \<in> set (slotDescriptors (run_slots run)).
              slot_time d = time slot \<and> slot_userIds d = userIds slot))
     \<and> (isTimeOutOfBounds ctx = specIsTimeOutOfBounds rollingEnd \<longrightarrow>
          (periodType et = UNLIMITED \<longrightarrow>
             set (slotTimes (run_slots run)) = time ` set (run_boundsTested run))
          \<and> (periodType et = RANGE \<longrightarrow>
             set (slotTimes (run_slots run)) =
               {t \<in> time ` set (run_boundsTested run).
                  (case periodStartDate et of None \<Rightarrow> True | Some a \<Rightarrow> a \<le> t) \<and>
                  (case periodEndDate et of None \<Rightarrow> True | Some b \<Rightarrow> t \<le> b)})
          \<and> (periodType et = ROLLING \<longrightarrow>
             set (slotTimes (run_slots run)) =
               {t \<in> time ` set (run_boundsTested run). t \<le> rollingEnd (periodOf et)}))"
proof -
  let ?run = "computeSchedule ctx input et s e"
  have run: "run = ?run" by (rule runSchedule_Inr [OF assms])
  have spec: "(periodType et = UNLIMITED \<longrightarrow>
             set (slotTimes (run_slots ?run)) = time ` set (run_boundsTested ?run))
          \<and> (periodType et = RANGE \<longrightarrow>
             set (slotTimes (run_slots ?run)) =
               {t \<in> time ` set (run_boundsTested ?run).
                  (case periodStartDate et of None \<Rightarrow> True | Some a \<Rightarrow> a \<le> t) \<and>
                  (case periodEndDate et of None \<Rightarrow> True | Some b \<Rightarrow> t \<le> b)})
          \<and> (periodType et = ROLLING \<longrightarrow>
             set (slotTimes (run_slots ?run)) =
               {t \<in> time ` set (run_boundsTested ?run). t \<le> rollingEnd (periodOf et)})"
    if "isTimeOutOfBounds ctx = specIsTimeOutOfBounds rollingEnd"
    unfolding run_slotTimes that
    by (auto simp: specIsTimeOutOfBounds_def)
  show ?thesis
    unfolding run
    using run_tested_exact [of ctx input et s e] run_output [of ctx input et s e] spec
    by blast
qed

text \<open>
  In the team example, whose period is a range that ends at 10:00, the slot at 11:00, at
  which alice is busy, never reaches the bounds predicate; the slot at 11:30 reaches it
  and is rejected. The workday event has an unlimited period and every slot that reaches
  the predicate is in the output.
\<close>

theorem bounds_filter_last_witness:
  "set (slotTimes (run_slots (computeSchedule teamCtx teamInput teamEvent jan1 jan2)))
     = {t \<in> time ` set (run_boundsTested (computeSchedule teamCtx teamInput teamEvent jan1 jan2)).
          jan1 \<le> t \<and> t \<le> slotAt 2}
   \<and> slotAt 5 \<in> time ` set (run_boundsTested (computeSchedule teamCtx teamInput teamEvent jan1 jan2))
   \<and> \<not> slotAt 5 \<le> slotAt 2
   \<and> slotAt 4 \<notin> time ` set (run_boundsTested (computeSchedule teamCtx teamInput teamEvent jan1 jan2))
   \<and> set (slotTimes (run_slots (computeSchedule workdayCtx morningInput workdayEvent jan1 jan1noon)))
     = time ` set (run_boundsTested (computeSchedule workdayCtx morningInput workdayEvent jan1 jan1noon))"
proof -
  have teamSpec: "isTimeOutOfBounds teamCtx = specIsTimeOutOfBounds (\<lambda>cfg. 0)"
    by (simp add: teamCtx_def)
  have workSpec: "isTimeOutOfBounds workdayCtx = specIsTimeOutOfBounds (\<lambda>cfg. 0)"
    by (simp add: workdayCtx_def)
  have range: "periodType teamEvent = RANGE" "periodStartDate teamEvent = Some jan1"
    "periodEndDate teamEvent = Some (slotAt 2)"
    by (simp_all add: teamEvent_def)
  have unlimited: "periodType workdayEvent = UNLIMITED"
    by (simp add: workdayEvent_def)
  have a: "set (slotTimes (run_slots (computeSchedule teamCtx teamInput teamEvent jan1 jan2)))
     = {t \<in> time ` set (run_boundsTested (computeSchedule teamCtx teamInput teamEvent jan1 jan2)).
          jan1 \<le> t \<and> t \<le> slotAt 2}"
    using bounds_filter_last [OF team_runSchedule team_validate, of "\<lambda>cfg. 0"] teamSpec range
    by simp
  have b: "set (slotTimes (run_slots (computeSchedule workdayCtx morningInput workdayEvent jan1 jan1noon)))
     = time ` set (run_boundsTested (computeSchedule workdayCtx morningInput workdayEvent jan1 jan1noon))"
    using bounds_filter_last [OF morning_runSchedule morning_validate, of "\<lambda>cfg. 0"]
      workSpec unlimited
    by simp
  have c: "slotAt 5 \<in> time ` set (run_boundsTested (computeSchedule teamCtx teamInput teamEvent jan1 jan2))
    \<and> slotAt 4 \<notin> time ` set (run_boundsTested (computeSchedule teamCtx teamInput teamEvent jan1 jan2))
    \<and> \<not> slotAt 5 \<le> slotAt 2"
    by (simp add: team_run slotAt_def msPerMinute_def)
  show ?thesis using a b c by blast
qed

section \<open>The settled currentSeats\<close>

lemma settleCurrentSeats_eq:
  "settleCurrentSeats cs rs =
     (case cs of
        Some c \<Rightarrow> Some c
      | None \<Rightarrow> (case find (\<lambda>c. c \<noteq> None) rs of None \<Rightarrow> None | Some c \<Rightarrow> c))"
  by (induction rs arbitrary: cs) (auto split: option.splits)

lemma run_currentSeats:
  "run_currentSeats (computeSchedule ctx input et s e) =
     settleCurrentSeats None
       (map r_currentSeats
          (inCompletionOrder (completionOrder ctx)
             (map (lookupAvailability ctx input et s e) (scheduleUsers et))))"
  by (simp add: computeSchedule_def Let_def filterTested_eq)

lemma inCompletionOrder_identity: "inCompletionOrder [0 ..< length xs] xs = xs"
  by (simp add: inCompletionOrder_def map_nth)

lemma describeSlot_seat:
  "slot_attendees (describeSlot et cs slot) = map_option attendees (seatAt cs (time slot))
   \<and> slot_bookingUid (describeSlot et cs slot) = map_option uid (seatAt cs (time slot))
   \<and> slot_time (describeSlot et cs slot) = time slot"
proof -
  have "seatAt cs (time slot) = None" if "\<not> hasSeatAt cs (time slot)"
    using that
    by (auto simp: hasSeatAt_def seatAt_def find_None_iff list_ex_iff split: option.splits)
  then show ?thesis
    by (simp add: describeSlot_def Let_def)
qed

text \<open>
  C9. The \<open>currentSeats\<close> of a run is the first one that a lookup reports, the
  lookups taken in the order in which they resolve; it is the first one in the order of
  the host list when the lookups resolve in that order. Once set it is never replaced.
  That one value is the \<open>currentSeats\<close> of every availability check behind a slot
  that reached the bounds filter, for fixed and for loose hosts, and the one the
  \<open>attendees\<close> and \<open>bookingUid\<close> of every slot descriptor are read from.
\<close>

text \<open>
  C9. The \<open>currentSeats\<close> of a run is the first one that a lookup reports, the
  lookups taken in the order in which they resolve; it is the first one in the order of
  the host list when the lookups resolve in that order. Once set it is never replaced.
  That one value is the \<open>currentSeats\<close> of every availability check, of fixed and of
  loose hosts, that decides which generated slots reach the bounds filter, and the one
  the \<open>attendees\<close> and \<open>bookingUid\<close> of every slot descriptor are read from.
\<close>

theorem currentSeats_first_resolved:
  assumes "runSchedule ctx input = Inr run"
    and "validateRequest ctx input = Inr (et, s, e)"
  shows "run_currentSeats run =
           (case find (\<lambda>c. c \<noteq> None)
                   (map r_currentSeats
                      (inCompletionOrder (completionOrder ctx)
                         (map (lookupAvailability ctx input et s e) (scheduleUsers et)))) of
              None \<Rightarrow> None
            | Some c \<Rightarrow> c)
         \<and> (completionOrder ctx = [0 ..< length (scheduleUsers et)] \<longrightarrow>
              run_currentSeats run =
                (case find (\<lambda>c. c \<noteq> None)
                        (map (\<lambda>h. r_currentSeats (lookupAvailability ctx input et s e h))
                           (scheduleUsers et)) of
                   None \<Rightarrow> None
                 | Some c \<Rightarrow> c))
         \<and> settleCurrentSeats (Some c) later = Some c
         \<and> run_boundsTested run
              = slotsLeft (run_userAvailability run) (length_min et) (run_currentSeats run)
                  (run_timeSlots run)
         \<and> (\<forall>d \<in> set (slotDescriptors (run_slots run)).
               slot_attendees d = map_option attendees (seatAt (run_currentSeats run) (slot_time d))
               \<and> slot_bookingUid d = map_option uid (seatAt (run_currentSeats run) (slot_time d)))"
proof -
  let ?run = "computeSchedule ctx input et s e"
  have run: "run = ?run" by (rule runSchedule_Inr [OF assms])
  have first: "run_currentSeats ?run =
           (case find (\<lambda>c. c \<noteq> None)
                   (map r_currentSeats
                      (inCompletionOrder (completionOrder ctx)
                         (map (lookupAvailability ctx input et s e) (scheduleUsers et)))) of
              None \<Rightarrow> None
            | Some c \<Rightarrow> c)"
    by (simp add: run_currentSeats settleCurrentSeats_eq)
  have inorder: "completionOrder ctx = [0 ..< length (scheduleUsers et)] \<longrightarrow>
              run_currentSeats ?run =
                (case find (\<lambda>c. c \<noteq> None)
                        (map (\<lambda>h. r_currentSeats (lookupAvailability ctx input et s e h))
                           (scheduleUsers et)) of
                   None \<Rightarrow> None
                 | Some c \<Rightarrow> c)"
  proof
    assume "completionOrder ctx = [0 ..< length (scheduleUsers et)]"
    then have "inCompletionOrder (completionOrder ctx)
                 (map (lookupAvailability ctx input et s e) (scheduleUsers et))
               = map (lookupAvailability ctx input et s e) (scheduleUsers et)"
      using inCompletionOrder_identity
        [of "map (lookupAvailability ctx input et s e) (scheduleUsers et)"] by simp
    then show "run_currentSeats ?run =
                (case find (\<lambda>c. c \<noteq> None)
                        (map (\<lambda>h. r_currentSeats (lookupAvailability ctx input et s e h))
                           (scheduleUsers et)) of
                   None \<Rightarrow> None
                 | Some c \<Rightarrow> c)"
      by (simp add: first comp_def)
  qed
  have keep: "settleCurrentSeats (Some c) later = Some c"
    by (simp add: settleCurrentSeats_eq)
  have checks: "run_boundsTested ?run
              = slotsLeft (run_userAvailability ?run) (length_min et) (run_currentSeats ?run)
                  (run_timeSlots ?run)"
    by (rule run_tested_exact)
  have annotated: "\<forall>d \<in> set (slotDescriptors (run_slots ?run)).
               slot_attendees d = map_option attendees (seatAt (run_currentSeats ?run) (slot_time d))
               \<and> slot_bookingUid d = map_option uid (seatAt (run_currentSeats ?run) (slot_time d))"
    unfolding run_slots_set using describeSlot_seat by auto
  show ?thesis
    unfolding run using first inorder keep checks annotated by blast
qed


text \<open>
  In the team example carol's lookup resolves first: her booking at 10:00 is the settled
  value, and the slot at 10:00 is annotated with its one attendee.
\<close>

text \<open>
  In the team example carol's lookup resolves first: her bookings are the settled value,
  and the slot at 10:00 is annotated with the one attendee of her booking at 10:00.
\<close>

theorem currentSeats_first_resolved_witness:
  "run_currentSeats (computeSchedule teamCtx teamInput teamEvent jan1 jan2) = Some carolSeats
   \<and> (\<exists>d \<in> set (slotDescriptors (run_slots (computeSchedule teamCtx teamInput teamEvent jan1 jan2))).
        slot_time d = slotAt 2 \<and>
        slot_attendees d = map_option attendees (seatAt (Some carolSeats) (slotAt 2)) \<and>
        slot_attendees d = Some 1)"
proof -
  let ?run = "computeSchedule teamCtx teamInput teamEvent jan1 jan2"
  let ?d = "\<lparr>slot_userIds = Some [2, 3], slot_time = slotAt 2,
            slot_users = [''alice'', ''bob'', ''carol''], slot_attendees = Some 1,
            slot_bookingUid = Some ''booking-carol''\<rparr>"
  note inst = currentSeats_first_resolved [OF team_runSchedule team_validate]
  have resolved: "(case find (\<lambda>c. c \<noteq> None)
                   (map r_currentSeats
                      (inCompletionOrder (completionOrder teamCtx)
                         (map (lookupAvailability teamCtx teamInput teamEvent jan1 jan2)
                            (scheduleUsers teamEvent)))) of
              None \<Rightarrow> None
            | Some c \<Rightarrow> c) = Some carolSeats"
    by code_simp
  have seats: "run_currentSeats ?run = Some carolSeats"
    using inst resolved by simp
  have m: "?d \<in> set (slotDescriptors (run_slots ?run))"
    by (simp add: team_run slotDescriptors_def)
  have "slot_attendees ?d = map_option attendees (seatAt (run_currentSeats ?run) (slot_time ?d))"
    using inst m by blast
  then have "slot_time ?d = slotAt 2 \<and>
        slot_attendees ?d = map_option attendees (seatAt (Some carolSeats) (slotAt 2)) \<and>
        slot_attendees ?d = Some 1"
    using seats by simp
  then show ?thesis
    using seats m by blast
qed

text \<open>
  In the order of the host list bob is the first host whose lookup reports seats, yet
  the settled value is carol's, whose lookup resolved first.
\<close>

text \<open>
  In the order of the host list bob is the first host whose lookup reports seats, yet
  the settled value is carol's, whose lookup resolved first.
\<close>

theorem currentSeats_first_resolved_counterexample:
  "map (\<lambda>h. r_currentSeats (lookupAvailability teamCtx teamInput teamEvent jan1 jan2 h))
     (scheduleUsers teamEvent) = [None, Some bobSeats, Some carolSeats]
   \<and> completionOrder teamCtx = [2, 1, 0]
   \<and> run_currentSeats (computeSchedule teamCtx teamInput teamEvent jan1 jan2) = Some carolSeats
   \<and> carolSeats \<noteq> bobSeats"
proof -
  have "map (\<lambda>h. r_currentSeats (lookupAvailability teamCtx teamInput teamEvent jan1 jan2 h))
     (scheduleUsers teamEvent) = [None, Some bobSeats, Some carolSeats]"
    by code_simp
  moreover have "completionOrder teamCtx = [2, 1, 0]"
    by (simp add: teamCtx_def)
  moreover have "carolSeats \<noteq> bobSeats"
    by (simp add: carolSeats_def bobSeats_def)
  ultimately show ?thesis
    by (simp add: team_run)
qed

section \<open>Errors\<close>

text \<open>
  Every failure of \<open>getSchedule\<close> is a failure of the validation that precedes the
  slot computation; a request for an event type that does not exist fails with
  \<open>NOT_FOUND\<close>, and one in a time zone that the conversion does not know with its
  \<open>RangeError\<close>.
\<close>

lemma getSchedule_Inl: "getSchedule ctx input = Inl err \<longleftrightarrow> validateRequest ctx input = Inl err"
  by (auto simp: getSchedule_def runSchedule_def split: sum.splits prod.splits)

lemma getSchedule_missing_event: "getSchedule workdayCtx missingInput = Inl NOT_FOUND"
  unfolding getSchedule_Inl
  by (simp add: validateRequest_def getRegularOrDynamicEventType_def isDynamicBooking_def
      getEventType_def workdayCtx_def missingInput_def workdayInput_def)

lemma getSchedule_RangeError: "getSchedule workdayCtx marsInput = Inl RangeError"
  unfolding getSchedule_Inl
  by (simp add: validateRequest_def getRegularOrDynamicEventType_def isDynamicBooking_def
      getEventType_def workdayCtx_def marsInput_def workdayInput_def parseRange_def)

text \<open>
  C7. A dynamic booking for a user name that no user has: the lookup of the users finds
  none, \<open>getDynamicEventType\<close> still returns an event type, the test for a missing
  event type does not fire, and \<open>getSchedule\<close> succeeds with no slots where a
  \<open>NOT_FOUND\<close> failure is expected.
\<close>

theorem getSchedule_dynamic_users_absent:
  "isDynamicBooking ghostInput
   \<and> findManyUsers workdayCtx (usernameList ghostInput) = []
   \<and> getSchedule workdayCtx ghostInput = Inr []
   \<and> getSchedule workdayCtx ghostInput \<noteq> Inl NOT_FOUND"
  by code_simp

section \<open>The users of a slot descriptor\<close>

text \<open>
  C8. An event type without hosts is read with an empty hosts list, not with a missing
  one. The workday event is such an event type, with alice as its user: every one of
  the sixteen slot descriptors of the output carries an empty \<open>users\<close> list, where
  the user name of alice is expected.
\<close>

theorem slot_users_empty_hosts:
  "hosts workdayEvent = Some []
   \<and> map usernameOrEmpty (users workdayEvent) = [''alice'']
   \<and> map slot_users
        (slotDescriptors (run_slots (computeSchedule workdayCtx morningInput workdayEvent jan1 jan1noon)))
       = replicate 16 []"
  by code_simp

end
